theory Spec2Isabelle
  imports Main
begin

section \<open>Objects and the free store\<close>

text \<open>
  An address is a natural number and \<open>0\<close> is \<open>nullptr\<close>. A pointer is the address of the
  complete object it points into: the conversions between a derived and a base pointer
  (\<open>static_cast\<close>, \<open>const_cast\<close>, the implicit conversion \<open>U* \<rightarrow> T*\<close>) are the identity
  on addresses. A class is known by its name; an object carries its most-derived
  (dynamic) type and the value of its data members.
\<close>

type_synonym addr = nat
type_synonym cls = string

record obj =
  dyn :: cls
  val :: int

datatype error =
    bad_alloc
  | null_dereference
  | dangling_pointer
  | assertion_failed
  | bad_polymorphic_value_construction

text \<open>
  The free store holds the live objects, and \<open>avail\<close> counts the allocations that will
  still succeed: the allocation after those throws \<open>std::bad_alloc\<close>.
\<close>

record mem =
  objs :: "(addr \<times> obj) list"
  avail :: nat

definition fresh :: "(addr \<times> obj) list \<Rightarrow> addr" where
  "fresh h = Suc (foldr max (map fst h) 0)"

definition object_count :: "mem \<Rightarrow> nat" where
  "object_count m = length (objs m)"

text \<open>\<open>new U(x)\<close>: allocate, then construct; the address is not one of a live object.\<close>

definition new_obj :: "obj \<Rightarrow> mem \<Rightarrow> (error + addr) \<times> mem" where
  "new_obj ob m =
     (if avail m = 0 then (Inl bad_alloc, m)
      else (Inr (fresh (objs m)),
            m\<lparr>objs := (fresh (objs m), ob) # objs m, avail := avail m - 1\<rparr>))"

text \<open>The allocation of a control block made by \<open>std::make_unique\<close>.\<close>

definition alloc_cb :: "mem \<Rightarrow> (error + unit) \<times> mem" where
  "alloc_cb m =
     (if avail m = 0 then (Inl bad_alloc, m)
      else (Inr (), m\<lparr>avail := avail m - 1\<rparr>))"

text \<open>\<open>delete p\<close>; deleting \<open>nullptr\<close> does nothing.\<close>

definition delete_obj :: "addr \<Rightarrow> mem \<Rightarrow> mem" where
  "delete_obj p m =
     (if p = 0 then m else m\<lparr>objs := filter (\<lambda>kv. fst kv \<noteq> p) (objs m)\<rparr>)"

text \<open>
  \<open>new U(*p)\<close>: the copy constructor of \<open>U\<close> copies the data members, as
  \<open>DerivedType(const DerivedType&)\<close> of the tests does, and the new object's
  most-derived type is \<open>U\<close>, whatever the dynamic type of \<open>*p\<close> is.
\<close>

definition new_copy :: "cls \<Rightarrow> addr \<Rightarrow> mem \<Rightarrow> (error + addr) \<times> mem" where
  "new_copy U p m =
     (if p = 0 then (Inl null_dereference, m)
      else case map_of (objs m) p of
             None \<Rightarrow> (Inl dangling_pointer, m)
           | Some ob \<Rightarrow> new_obj \<lparr>dyn = U, val = val ob\<rparr> m)"

text \<open>
  \<open>dynamic_cast<T*>(p)\<close>. The class hierarchy is a parameter: \<open>ibo B D\<close> says that
  \<open>B\<close> is \<open>D\<close> or an unambiguous public base of \<open>D\<close>, which is
  \<open>std::is_base_of<B, D>\<close> for the classes of the tests. The cast yields \<open>p\<close> when
  the dynamic type of \<open>*p\<close> is \<open>T\<close> or derives from it in that sense, and
  \<open>nullptr\<close> otherwise or when \<open>p\<close> is null.
\<close>

definition dynamic_cast :: "(cls \<Rightarrow> cls \<Rightarrow> bool) \<Rightarrow> cls \<Rightarrow> addr \<Rightarrow> mem \<Rightarrow> error + addr" where
  "dynamic_cast ibo T p m =
     (if p = 0 then Inr 0
      else case map_of (objs m) p of
             None \<Rightarrow> Inl dangling_pointer
           | Some ob \<Rightarrow> Inr (if ibo T (dyn ob) then p else 0))"

section \<open>Control blocks of \<open>cloned_ptr.h\<close>\<close>

text \<open>
  A control block is owned by one \<open>std::unique_ptr\<close>, so it is a value; a null
  \<open>unique_ptr\<close> is \<open>None\<close>. Of the template parameters only those that decide the
  behaviour are kept: the \<open>U\<close> of \<open>control_block_impl<T, U>\<close>, whose copy
  constructor \<open>clone\<close> calls, and the target \<open>T\<close> of the dynamic cast.
\<close>

datatype control_block =
    control_block_impl cls addr
  | delegating_control_block "control_block option"
  | downcasting_delegating_control_block "control_block option"
  | dynamic_casting_delegating_control_block cls "control_block option" addr
  | const_casting_delegating_control_block "control_block option"

fun cb_ptr :: "control_block \<Rightarrow> error + addr" where
  "cb_ptr (control_block_impl U p) = Inr p"
| "cb_ptr (delegating_control_block None) = Inl null_dereference"
| "cb_ptr (delegating_control_block (Some d)) = cb_ptr d"
| "cb_ptr (downcasting_delegating_control_block None) = Inl null_dereference"
| "cb_ptr (downcasting_delegating_control_block (Some d)) = cb_ptr d"
| "cb_ptr (dynamic_casting_delegating_control_block T d p) = Inr p"
| "cb_ptr (const_casting_delegating_control_block None) = Inl null_dereference"
| "cb_ptr (const_casting_delegating_control_block (Some d)) = cb_ptr d"

text \<open>
  The destructors: \<open>~control_block_impl\<close> deletes \<open>p_\<close>, the adapters destroy their
  delegate.
\<close>

fun cb_destroy :: "control_block \<Rightarrow> mem \<Rightarrow> mem" where
  "cb_destroy (control_block_impl U p) m = delete_obj p m"
| "cb_destroy (delegating_control_block None) m = m"
| "cb_destroy (delegating_control_block (Some d)) m = cb_destroy d m"
| "cb_destroy (downcasting_delegating_control_block None) m = m"
| "cb_destroy (downcasting_delegating_control_block (Some d)) m = cb_destroy d m"
| "cb_destroy (dynamic_casting_delegating_control_block T None p) m = m"
| "cb_destroy (dynamic_casting_delegating_control_block T (Some d) p) m = cb_destroy d m"
| "cb_destroy (const_casting_delegating_control_block None) m = m"
| "cb_destroy (const_casting_delegating_control_block (Some d)) m = cb_destroy d m"

text \<open>Resetting or overwriting a \<open>unique_ptr\<close> destroys the block it held.\<close>

fun unique_ptr_reset :: "control_block option \<Rightarrow> mem \<Rightarrow> mem" where
  "unique_ptr_reset None m = m"
| "unique_ptr_reset (Some c) m = cb_destroy c m"

text \<open>
  \<open>clone\<close>. In \<open>control_block_impl\<close> the argument \<open>new U(*p_)\<close> is evaluated before
  \<open>make_unique\<close> allocates the block, and it is a raw pointer: when that allocation
  throws, nothing deletes the copy. In the adapters the argument is the
  \<open>unique_ptr\<close> returned by the delegate's \<open>clone\<close>, destroyed when the allocation throws.
  The constructor of the dynamic-casting adapter then caches the cast pointer.
\<close>

fun cb_clone :: "(cls \<Rightarrow> cls \<Rightarrow> bool) \<Rightarrow> control_block \<Rightarrow> mem \<Rightarrow> (error + control_block) \<times> mem" where
  "cb_clone ibo (control_block_impl U p) m =
     (case new_copy U p m of
        (Inl e, m1) \<Rightarrow> (Inl e, m1)
      | (Inr a, m1) \<Rightarrow>
          (case alloc_cb m1 of
             (Inl e, m2) \<Rightarrow> (Inl e, m2)
           | (Inr _, m2) \<Rightarrow> (Inr (control_block_impl U a), m2)))"
| "cb_clone ibo (delegating_control_block None) m = (Inl null_dereference, m)"
| "cb_clone ibo (delegating_control_block (Some d)) m =
     (case cb_clone ibo d m of
        (Inl e, m1) \<Rightarrow> (Inl e, m1)
      | (Inr d', m1) \<Rightarrow>
          (case alloc_cb m1 of
             (Inl e, m2) \<Rightarrow> (Inl e, cb_destroy d' m2)
           | (Inr _, m2) \<Rightarrow> (Inr (delegating_control_block (Some d')), m2)))"
| "cb_clone ibo (downcasting_delegating_control_block None) m = (Inl null_dereference, m)"
| "cb_clone ibo (downcasting_delegating_control_block (Some d)) m =
     (case cb_clone ibo d m of
        (Inl e, m1) \<Rightarrow> (Inl e, m1)
      | (Inr d', m1) \<Rightarrow>
          (case alloc_cb m1 of
             (Inl e, m2) \<Rightarrow> (Inl e, cb_destroy d' m2)
           | (Inr _, m2) \<Rightarrow> (Inr (downcasting_delegating_control_block (Some d')), m2)))"
| "cb_clone ibo (dynamic_casting_delegating_control_block T None p) m =
     (Inl null_dereference, m)"
| "cb_clone ibo (dynamic_casting_delegating_control_block T (Some d) p) m =
     (case cb_clone ibo d m of
        (Inl e, m1) \<Rightarrow> (Inl e, m1)
      | (Inr d', m1) \<Rightarrow>
          (case alloc_cb m1 of
             (Inl e, m2) \<Rightarrow> (Inl e, cb_destroy d' m2)
           | (Inr _, m2) \<Rightarrow>
               (case cb_ptr d' of
                  Inl e \<Rightarrow> (Inl e, m2)
                | Inr q \<Rightarrow>
                    (case dynamic_cast ibo T q m2 of
                       Inl e \<Rightarrow> (Inl e, m2)
                     | Inr q' \<Rightarrow>
                         (Inr (dynamic_casting_delegating_control_block T (Some d') q'),
                          m2)))))"
| "cb_clone ibo (const_casting_delegating_control_block None) m = (Inl null_dereference, m)"
| "cb_clone ibo (const_casting_delegating_control_block (Some d)) m =
     (case cb_clone ibo d m of
        (Inl e, m1) \<Rightarrow> (Inl e, m1)
      | (Inr d', m1) \<Rightarrow>
          (case alloc_cb m1 of
             (Inl e, m2) \<Rightarrow> (Inl e, cb_destroy d' m2)
           | (Inr _, m2) \<Rightarrow> (Inr (const_casting_delegating_control_block (Some d')), m2)))"

text \<open>
  \<open>release\<close> returns the pointer with the block as it is left: \<open>control_block_impl\<close>
  nulls \<open>p_\<close>; the dynamic-casting adapter releases its delegate and returns the
  cached pointer, which it keeps.
\<close>

fun cb_release :: "control_block \<Rightarrow> (error + addr) \<times> control_block" where
  "cb_release (control_block_impl U p) = (Inr p, control_block_impl U 0)"
| "cb_release (delegating_control_block None) =
     (Inl null_dereference, delegating_control_block None)"
| "cb_release (delegating_control_block (Some d)) =
     (case cb_release d of (r, d') \<Rightarrow> (r, delegating_control_block (Some d')))"
| "cb_release (downcasting_delegating_control_block None) =
     (Inl null_dereference, downcasting_delegating_control_block None)"
| "cb_release (downcasting_delegating_control_block (Some d)) =
     (case cb_release d of (r, d') \<Rightarrow> (r, downcasting_delegating_control_block (Some d')))"
| "cb_release (dynamic_casting_delegating_control_block T None p) =
     (Inl null_dereference, dynamic_casting_delegating_control_block T None p)"
| "cb_release (dynamic_casting_delegating_control_block T (Some d) p) =
     (case cb_release d of
        (Inl e, d') \<Rightarrow> (Inl e, dynamic_casting_delegating_control_block T (Some d') p)
      | (Inr _, d') \<Rightarrow> (Inr p, dynamic_casting_delegating_control_block T (Some d') p))"
| "cb_release (const_casting_delegating_control_block None) =
     (Inl null_dereference, const_casting_delegating_control_block None)"
| "cb_release (const_casting_delegating_control_block (Some d)) =
     (case cb_release d of (r, d') \<Rightarrow> (r, const_casting_delegating_control_block (Some d')))"

section \<open>The handle \<open>cloned_ptr\<close>\<close>

text \<open>
  The members \<open>ptr_\<close> and \<open>cb_\<close>. A member function returns the handle as it leaves
  it, also when it throws; a constructor that throws leaves no handle.
\<close>

record cloned_ptr =
  ptr :: addr
  cb :: "control_block option"

text \<open>\<open>cloned_ptr()\<close> and \<open>cloned_ptr(std::nullptr_t)\<close>.\<close>

definition cloned_ptr_null :: cloned_ptr where
  "cloned_ptr_null = \<lparr>ptr = 0, cb = None\<rparr>"

definition operator_bool :: "cloned_ptr \<Rightarrow> bool" where
  "operator_bool t = (ptr t \<noteq> 0)"

definition get :: "cloned_ptr \<Rightarrow> addr" where
  "get t = ptr t"

text \<open>\<open>operator->\<close> returns \<open>get()\<close>; \<open>operator*\<close> asserts \<open>ptr_\<close> first.\<close>

definition operator_arrow :: "cloned_ptr \<Rightarrow> error + addr" where
  "operator_arrow t = Inr (get t)"

definition operator_star :: "cloned_ptr \<Rightarrow> error + addr" where
  "operator_star t = (if ptr t = 0 then Inl assertion_failed else Inr (get t))"

text \<open>\<open>explicit cloned_ptr(U *u)\<close>.\<close>

definition cloned_ptr_raw :: "cls \<Rightarrow> addr \<Rightarrow> mem \<Rightarrow> (error + cloned_ptr) \<times> mem" where
  "cloned_ptr_raw U u m =
     (if u = 0 then (Inr cloned_ptr_null, m)
      else case alloc_cb m of
             (Inl e, m1) \<Rightarrow> (Inl e, m1)
           | (Inr _, m1) \<Rightarrow> (Inr \<lparr>ptr = u, cb = Some (control_block_impl U u)\<rparr>, m1))"


text \<open>\<open>cloned_ptr(const cloned_ptr &p)\<close>.\<close>

definition cloned_ptr_copy ::
  "(cls \<Rightarrow> cls \<Rightarrow> bool) \<Rightarrow> cloned_ptr \<Rightarrow> mem \<Rightarrow> (error + cloned_ptr) \<times> mem" where
  "cloned_ptr_copy ibo p m =
     (if \<not> operator_bool p then (Inr cloned_ptr_null, m)
      else case cb p of
             None \<Rightarrow> (Inl null_dereference, m)
           | Some c \<Rightarrow>
               (case cb_clone ibo c m of
                  (Inl e, m1) \<Rightarrow> (Inl e, m1)
                | (Inr c', m1) \<Rightarrow>
                    (case cb_ptr c' of
                       Inl e \<Rightarrow> (Inl e, m1)
                     | Inr q \<Rightarrow> (Inr \<lparr>ptr = q, cb = Some c'\<rparr>, m1))))"

text \<open>\<open>cloned_ptr(cloned_ptr &&p)\<close>: the new handle and \<open>p\<close> as it is left.\<close>

definition cloned_ptr_move :: "cloned_ptr \<Rightarrow> cloned_ptr \<times> cloned_ptr" where
  "cloned_ptr_move p = (\<lparr>ptr = ptr p, cb = cb p\<rparr>, \<lparr>ptr = 0, cb = None\<rparr>)"

text \<open>\<open>~cloned_ptr()\<close> destroys the member \<open>cb_\<close>.\<close>

definition cloned_ptr_destroy :: "cloned_ptr \<Rightarrow> mem \<Rightarrow> mem" where
  "cloned_ptr_destroy t m = unique_ptr_reset (cb t) m"



text \<open>
  The bodies of \<open>operator=(const cloned_ptr &p)\<close> and \<open>operator=(cloned_ptr &&p)\<close>
  past the test \<open>&p == this\<close>, for a receiver \<open>t\<close> that is another object than \<open>p\<close>.
\<close>

definition copy_assign_from ::
  "(cls \<Rightarrow> cls \<Rightarrow> bool) \<Rightarrow> cloned_ptr \<Rightarrow> cloned_ptr \<Rightarrow> mem \<Rightarrow> error option \<times> cloned_ptr \<times> mem" where
  "copy_assign_from ibo t p m =
     (if \<not> operator_bool p then (None, \<lparr>ptr = 0, cb = None\<rparr>, unique_ptr_reset (cb t) m)
      else case cb p of
             None \<Rightarrow> (Some null_dereference, t, m)
           | Some c \<Rightarrow>
               (case cb_clone ibo c m of
                  (Inl e, m1) \<Rightarrow> (Some e, t, m1)
                | (Inr c', m1) \<Rightarrow>
                    (case cb_ptr c' of
                       Inl e \<Rightarrow> (Some e, t, m1)
                     | Inr q \<Rightarrow>
                         (None, \<lparr>ptr = q, cb = Some c'\<rparr>, unique_ptr_reset (cb t) m1))))"

definition move_assign_from ::
  "cloned_ptr \<Rightarrow> cloned_ptr \<Rightarrow> mem \<Rightarrow> cloned_ptr \<times> cloned_ptr \<times> mem" where
  "move_assign_from t p m =
     (\<lparr>ptr = ptr p, cb = cb p\<rparr>, \<lparr>ptr = 0, cb = None\<rparr>, unique_ptr_reset (cb t) m)"

text \<open>
  \<open>operator=(cloned_ptr<U> &&p)\<close> for a derived \<open>U\<close>: no test of self-assignment;
  the adapter is allocated first, then assigning it to \<open>cb_\<close> destroys the block the
  receiver held. The result is the error if any, the receiver, \<open>p\<close> and the store.
\<close>

definition move_assign_convert_from ::
  "cloned_ptr \<Rightarrow> cloned_ptr \<Rightarrow> mem \<Rightarrow> error option \<times> cloned_ptr \<times> cloned_ptr \<times> mem" where
  "move_assign_convert_from t p m =
     (case alloc_cb m of
        (Inl e, m1) \<Rightarrow> (Some e, t, p, m1)
      | (Inr _, m1) \<Rightarrow>
          (None, \<lparr>ptr = ptr p, cb = Some (delegating_control_block (cb p))\<rparr>,
           \<lparr>ptr = 0, cb = None\<rparr>, unique_ptr_reset (cb t) m1))"


text \<open>
  Whether two operands are the same object is a matter of where the handles live: a
  program state holds the handles by location, next to the free store.
\<close>

record world =
  var :: "nat \<Rightarrow> cloned_ptr"
  store :: mem

definition operator_assign_copy ::
  "(cls \<Rightarrow> cls \<Rightarrow> bool) \<Rightarrow> nat \<Rightarrow> nat \<Rightarrow> world \<Rightarrow> error option \<times> world" where
  "operator_assign_copy ibo this p w =
     (if p = this then (None, w)
      else case copy_assign_from ibo (var w this) (var w p) (store w) of
             (r, t', m') \<Rightarrow> (r, w\<lparr>var := (var w)(this := t'), store := m'\<rparr>))"

definition operator_assign_move :: "nat \<Rightarrow> nat \<Rightarrow> world \<Rightarrow> world" where
  "operator_assign_move this p w =
     (if p = this then w
      else case move_assign_from (var w this) (var w p) (store w) of
             (t', p', m') \<Rightarrow> w\<lparr>var := (var w)(this := t', p := p'), store := m'\<rparr>)"

text \<open>\<open>release()\<close>: the pointer returned and the handle as it is left.\<close>

definition release :: "cloned_ptr \<Rightarrow> (error + addr) \<times> cloned_ptr" where
  "release t =
     (if ptr t = 0 then (Inr 0, t)
      else case cb t of
             None \<Rightarrow> (Inl null_dereference, t\<lparr>ptr := 0\<rparr>)
           | Some c \<Rightarrow> (case cb_release c of (r, c') \<Rightarrow> (r, \<lparr>ptr = 0, cb = Some c'\<rparr>)))"

text \<open>
  \<open>reset(U *u)\<close> on a \<open>cloned_ptr<T>\<close>: past the guard, a temporary
  \<open>cloned_ptr<U>\<close> over \<open>u\<close> is move-assigned to the receiver and then destroyed.
  For the default \<open>U = T\<close> that is the move assignment; for a derived \<open>U\<close> it is
  \<open>operator=(cloned_ptr<U> &&)\<close>, which wraps the temporary's block, null or not,
  in an adapter.
\<close>

definition reset ::
  "cls \<Rightarrow> cls \<Rightarrow> addr \<Rightarrow> cloned_ptr \<Rightarrow> mem \<Rightarrow> error option \<times> cloned_ptr \<times> mem" where
  "reset T U u t m =
     (if u = ptr t then (None, t, m)
      else case cloned_ptr_raw U u m of
             (Inl e, m1) \<Rightarrow> (Some e, t, m1)
           | (Inr tmp, m1) \<Rightarrow>
               if U = T
               then (case move_assign_from t tmp m1 of
                       (t', tmp', m2) \<Rightarrow> (None, t', cloned_ptr_destroy tmp' m2))
               else (case move_assign_convert_from t tmp m1 of
                       (r, t', tmp', m2) \<Rightarrow> (r, t', cloned_ptr_destroy tmp' m2)))"




text \<open>
  \<open>std::dynamic_pointer_cast<T>(p)\<close>: the test on \<open>p.get()\<close>, then a copy of \<open>p\<close>
  wrapped in the dynamic-casting adapter, whose constructor casts the delegate's pointer
  once more.
\<close>

definition dynamic_pointer_cast ::
  "(cls \<Rightarrow> cls \<Rightarrow> bool) \<Rightarrow> cls \<Rightarrow> cloned_ptr \<Rightarrow> mem \<Rightarrow> (error + cloned_ptr) \<times> mem" where
  "dynamic_pointer_cast ibo T p m =
     (case dynamic_cast ibo T (get p) m of
        Inl e \<Rightarrow> (Inl e, m)
      | Inr q \<Rightarrow>
          if q = 0 then (Inr cloned_ptr_null, m)
          else
            (case cloned_ptr_copy ibo p m of
               (Inl e, m1) \<Rightarrow> (Inl e, m1)
             | (Inr tmp, m1) \<Rightarrow>
                 (case dynamic_cast ibo T (ptr tmp) m1 of
                    Inl e \<Rightarrow> (Inl e, m1)
                  | Inr q1 \<Rightarrow>
                      (case alloc_cb m1 of
                         (Inl e, m2) \<Rightarrow> (Inl e, cloned_ptr_destroy tmp m2)
                       | (Inr _, m2) \<Rightarrow>
                           (case cb tmp of
                              None \<Rightarrow> (Inl null_dereference, m2)
                            | Some d \<Rightarrow>
                                (case cb_ptr d of
                                   Inl e \<Rightarrow> (Inl e, m2)
                                 | Inr q2 \<Rightarrow>
                                     (case dynamic_cast ibo T q2 m2 of
                                        Inl e \<Rightarrow> (Inl e, m2)
                                      | Inr q3 \<Rightarrow>
                                          (Inr \<lparr>ptr = q1,
                                                cb = Some (dynamic_casting_delegating_control_block
                                                             T (Some d) q3)\<rparr>,
                                           m2))))))))"

section \<open>\<open>polymorphic_value\<close>: construction from a pointer and access\<close>

text \<open>
  The copier and the deleter are template arguments: what the constructor asks of them
  is whether they are \<open>default_copy<U>\<close> and \<open>std::default_delete<U>\<close>. A deleter
  of the caller's is a function on the free store.
\<close>

datatype copier = default_copy cls | custom_copier

datatype deleter = default_delete cls | custom_deleter "addr \<Rightarrow> mem \<Rightarrow> mem"

fun is_default_copy :: "copier \<Rightarrow> cls \<Rightarrow> bool" where
  "is_default_copy (default_copy V) U = (V = U)"
| "is_default_copy custom_copier U = False"

fun is_default_delete :: "deleter \<Rightarrow> cls \<Rightarrow> bool" where
  "is_default_delete (default_delete V) U = (V = U)"
| "is_default_delete (custom_deleter f) U = False"

fun run_deleter :: "deleter \<Rightarrow> addr \<Rightarrow> mem \<Rightarrow> mem" where
  "run_deleter (default_delete V) p m = delete_obj p m"
| "run_deleter (custom_deleter f) p m = f p m"

datatype pv_control_block =
    pointer_control_block cls copier deleter addr
  | allocated_pointer_control_block cls addr

record polymorphic_value =
  pv_ptr :: addr
  pv_cb :: "pv_control_block option"

definition polymorphic_value_null :: polymorphic_value where
  "polymorphic_value_null = \<lparr>pv_ptr = 0, pv_cb = None\<rparr>"

text \<open>
  \<open>typeid(*u)\<close> against \<open>typeid(U)\<close>, for a \<open>u\<close> of static type \<open>U*\<close>: when
  \<open>U\<close> is a polymorphic class (\<open>std::is_polymorphic<U>\<close>, here
  \<open>is_polymorphic U\<close>) the operand is evaluated and the result is the dynamic type of
  the object; otherwise the operand is not evaluated and the result is \<open>U\<close>.
\<close>

definition typeid_deref :: "(cls \<Rightarrow> bool) \<Rightarrow> cls \<Rightarrow> addr \<Rightarrow> mem \<Rightarrow> error + cls" where
  "typeid_deref is_polymorphic U u m =
     (if is_polymorphic U
      then (case map_of (objs m) u of
              None \<Rightarrow> Inl dangling_pointer
            | Some ob \<Rightarrow> Inr (dyn ob))
      else Inr U)"

text \<open>
  The end of \<open>polymorphic_value(U* u, C copier, D deleter)\<close>, past the tests: the local
  \<open>unique_ptr<U, D>\<close> runs the deleter when allocating the block throws.
\<close>

definition pointer_control_block_adopt ::
  "cls \<Rightarrow> addr \<Rightarrow> copier \<Rightarrow> deleter \<Rightarrow> mem \<Rightarrow> (error + polymorphic_value) \<times> mem" where
  "pointer_control_block_adopt U u C D m =
     (case alloc_cb m of
        (Inl e, m1) \<Rightarrow> (Inl e, run_deleter D u m1)
      | (Inr _, m1) \<Rightarrow>
          (Inr \<lparr>pv_ptr = u, pv_cb = Some (pointer_control_block U C D u)\<rparr>, m1))"

text \<open>
  \<open>polymorphic_value(U* u, C copier, D deleter)\<close>. The test of the dynamic type is
  compiled in unless \<open>ISOCPP_P0201_POLYMORPHIC_VALUE_NO_RTTI\<close> is defined
  (\<open>no_rtti\<close>), and \<open>typeid(*u)\<close> is reached only for the default copier and deleter.
\<close>

definition polymorphic_value_raw ::
  "(cls \<Rightarrow> bool) \<Rightarrow> bool \<Rightarrow> cls \<Rightarrow> addr \<Rightarrow> copier \<Rightarrow> deleter \<Rightarrow> mem
     \<Rightarrow> (error + polymorphic_value) \<times> mem" where
  "polymorphic_value_raw is_polymorphic no_rtti U u C D m =
     (if u = 0 then (Inr polymorphic_value_null, m)
      else if \<not> no_rtti \<and> is_default_delete D U \<and> is_default_copy C U
      then (case typeid_deref is_polymorphic U u m of
              Inl e \<Rightarrow> (Inl e, m)
            | Inr V \<Rightarrow>
                if V \<noteq> U then (Inl bad_polymorphic_value_construction, m)
                else pointer_control_block_adopt U u C D m)
      else pointer_control_block_adopt U u C D m)"

text \<open>
  \<open>polymorphic_value(U* u, std::allocator_arg_t, const A& alloc)\<close>: the test of the
  dynamic type does not depend on a copier or deleter; past it, the block is allocated.
\<close>

definition allocated_pointer_control_block_adopt ::
  "cls \<Rightarrow> addr \<Rightarrow> mem \<Rightarrow> (error + polymorphic_value) \<times> mem" where
  "allocated_pointer_control_block_adopt U u m =
     (case alloc_cb m of
        (Inl e, m1) \<Rightarrow> (Inl e, m1)
      | (Inr _, m1) \<Rightarrow>
          (Inr \<lparr>pv_ptr = u, pv_cb = Some (allocated_pointer_control_block U u)\<rparr>, m1))"

definition polymorphic_value_allocator_raw ::
  "(cls \<Rightarrow> bool) \<Rightarrow> bool \<Rightarrow> cls \<Rightarrow> addr \<Rightarrow> mem \<Rightarrow> (error + polymorphic_value) \<times> mem" where
  "polymorphic_value_allocator_raw is_polymorphic no_rtti U u m =
     (if u = 0 then (Inr polymorphic_value_null, m)
      else if \<not> no_rtti
      then (case typeid_deref is_polymorphic U u m of
              Inl e \<Rightarrow> (Inl e, m)
            | Inr V \<Rightarrow>
                if V \<noteq> U then (Inl bad_polymorphic_value_construction, m)
                else allocated_pointer_control_block_adopt U u m)
      else allocated_pointer_control_block_adopt U u m)"

text \<open>
  \<open>explicit operator bool\<close> is \<open>bool(cb_)\<close>. The const \<open>operator->\<close> asserts
  \<open>ptr_\<close>; the const \<open>operator*\<close> and the two non-const operators assert \<open>*this\<close>.
\<close>

definition pv_operator_bool :: "polymorphic_value \<Rightarrow> bool" where
  "pv_operator_bool h = (pv_cb h \<noteq> None)"

definition pv_operator_arrow_const :: "polymorphic_value \<Rightarrow> error + addr" where
  "pv_operator_arrow_const h =
     (if pv_ptr h = 0 then Inl assertion_failed else Inr (pv_ptr h))"

definition pv_operator_star_const :: "polymorphic_value \<Rightarrow> error + addr" where
  "pv_operator_star_const h =
     (if \<not> pv_operator_bool h then Inl assertion_failed else Inr (pv_ptr h))"

definition pv_operator_arrow :: "polymorphic_value \<Rightarrow> error + addr" where
  "pv_operator_arrow h =
     (if \<not> pv_operator_bool h then Inl assertion_failed else Inr (pv_ptr h))"

definition pv_operator_star :: "polymorphic_value \<Rightarrow> error + addr" where
  "pv_operator_star h =
     (if \<not> pv_operator_bool h then Inl assertion_failed else Inr (pv_ptr h))"

section \<open>Well-formed handles\<close>

text \<open>
  A block is coherent when every adapter has its delegate and a dynamic-casting adapter
  caches the pointer of its delegate.
\<close>

fun cb_coherent :: "control_block \<Rightarrow> bool" where
  "cb_coherent (control_block_impl U p) = True"
| "cb_coherent (delegating_control_block None) = False"
| "cb_coherent (delegating_control_block (Some d)) = cb_coherent d"
| "cb_coherent (downcasting_delegating_control_block None) = False"
| "cb_coherent (downcasting_delegating_control_block (Some d)) = cb_coherent d"
| "cb_coherent (dynamic_casting_delegating_control_block T None p) = False"
| "cb_coherent (dynamic_casting_delegating_control_block T (Some d) p) =
     (cb_coherent d \<and> cb_ptr d = Inr p)"
| "cb_coherent (const_casting_delegating_control_block None) = False"
| "cb_coherent (const_casting_delegating_control_block (Some d)) = cb_coherent d"

text \<open>
  A block is exactly bound in a store when, moreover, the object it owns is live, the
  type \<open>U\<close> its \<open>control_block_impl\<close> was built with is the dynamic type of that
  object, and the casts of its dynamic-casting adapters succeed.
\<close>

fun cb_wf :: "(cls \<Rightarrow> cls \<Rightarrow> bool) \<Rightarrow> mem \<Rightarrow> control_block \<Rightarrow> bool" where
  "cb_wf ibo m (control_block_impl U p) =
     (p \<noteq> 0 \<and> map_option dyn (map_of (objs m) p) = Some U)"
| "cb_wf ibo m (delegating_control_block None) = False"
| "cb_wf ibo m (delegating_control_block (Some d)) = cb_wf ibo m d"
| "cb_wf ibo m (downcasting_delegating_control_block None) = False"
| "cb_wf ibo m (downcasting_delegating_control_block (Some d)) = cb_wf ibo m d"
| "cb_wf ibo m (dynamic_casting_delegating_control_block T None p) = False"
| "cb_wf ibo m (dynamic_casting_delegating_control_block T (Some d) p) =
     (cb_wf ibo m d \<and> cb_ptr d = Inr p \<and> dynamic_cast ibo T p m = Inr p)"
| "cb_wf ibo m (const_casting_delegating_control_block None) = False"
| "cb_wf ibo m (const_casting_delegating_control_block (Some d)) = cb_wf ibo m d"

definition handle_wf :: "(cls \<Rightarrow> cls \<Rightarrow> bool) \<Rightarrow> mem \<Rightarrow> cloned_ptr \<Rightarrow> bool" where
  "handle_wf ibo m t =
     (case cb t of
        None \<Rightarrow> ptr t = 0
      | Some c \<Rightarrow> cb_wf ibo m c \<and> cb_ptr c = Inr (ptr t))"



text \<open>
  The class a block was built with, the \<open>U\<close> of its \<open>control_block_impl\<close>. A block
  can be cast again when each of its dynamic-casting adapters casts to that class or to
  one of its bases: then the casts succeed on a copy as well, whose dynamic type is
  \<open>U\<close>.
\<close>

fun cb_bound :: "control_block \<Rightarrow> cls option" where
  "cb_bound (control_block_impl U p) = Some U"
| "cb_bound (delegating_control_block None) = None"
| "cb_bound (delegating_control_block (Some d)) = cb_bound d"
| "cb_bound (downcasting_delegating_control_block None) = None"
| "cb_bound (downcasting_delegating_control_block (Some d)) = cb_bound d"
| "cb_bound (dynamic_casting_delegating_control_block T None p) = None"
| "cb_bound (dynamic_casting_delegating_control_block T (Some d) p) = cb_bound d"
| "cb_bound (const_casting_delegating_control_block None) = None"
| "cb_bound (const_casting_delegating_control_block (Some d)) = cb_bound d"

fun cb_castable :: "(cls \<Rightarrow> cls \<Rightarrow> bool) \<Rightarrow> control_block \<Rightarrow> bool" where
  "cb_castable ibo (control_block_impl U p) = True"
| "cb_castable ibo (delegating_control_block None) = True"
| "cb_castable ibo (delegating_control_block (Some d)) = cb_castable ibo d"
| "cb_castable ibo (downcasting_delegating_control_block None) = True"
| "cb_castable ibo (downcasting_delegating_control_block (Some d)) = cb_castable ibo d"
| "cb_castable ibo (dynamic_casting_delegating_control_block T None p) = True"
| "cb_castable ibo (dynamic_casting_delegating_control_block T (Some d) p) =
     (cb_castable ibo d \<and> (case cb_bound d of None \<Rightarrow> False | Some U \<Rightarrow> ibo T U))"
| "cb_castable ibo (const_casting_delegating_control_block None) = True"
| "cb_castable ibo (const_casting_delegating_control_block (Some d)) = cb_castable ibo d"

definition handle_castable :: "(cls \<Rightarrow> cls \<Rightarrow> bool) \<Rightarrow> cloned_ptr \<Rightarrow> bool" where
  "handle_castable ibo p = (case cb p of None \<Rightarrow> True | Some c \<Rightarrow> cb_castable ibo c)"

text \<open>
  \<open>dynamic_pointer_cast<T>\<close> puts one more dynamic-casting adapter, to \<open>T\<close>, around
  a copy of the block of \<open>p\<close>: the block with that adapter can be cast again.
\<close>

definition cast_castable :: "(cls \<Rightarrow> cls \<Rightarrow> bool) \<Rightarrow> cls \<Rightarrow> cloned_ptr \<Rightarrow> bool" where
  "cast_castable ibo T p =
     (case cb p of
        None \<Rightarrow> True
      | Some c \<Rightarrow> cb_castable ibo (dynamic_casting_delegating_control_block T (Some c) 0))"

text \<open>The allocations one \<open>clone\<close> makes, and the block it returns over a copy at \<open>a\<close>.\<close>

fun cb_allocs :: "control_block \<Rightarrow> nat" where
  "cb_allocs (control_block_impl U p) = 2"
| "cb_allocs (delegating_control_block None) = 0"
| "cb_allocs (delegating_control_block (Some d)) = Suc (cb_allocs d)"
| "cb_allocs (downcasting_delegating_control_block None) = 0"
| "cb_allocs (downcasting_delegating_control_block (Some d)) = Suc (cb_allocs d)"
| "cb_allocs (dynamic_casting_delegating_control_block T None p) = 0"
| "cb_allocs (dynamic_casting_delegating_control_block T (Some d) p) = Suc (cb_allocs d)"
| "cb_allocs (const_casting_delegating_control_block None) = 0"
| "cb_allocs (const_casting_delegating_control_block (Some d)) = Suc (cb_allocs d)"

fun cb_retarget :: "addr \<Rightarrow> control_block \<Rightarrow> control_block" where
  "cb_retarget a (control_block_impl U p) = control_block_impl U a"
| "cb_retarget a (delegating_control_block d) =
     delegating_control_block (map_option (cb_retarget a) d)"
| "cb_retarget a (downcasting_delegating_control_block d) =
     downcasting_delegating_control_block (map_option (cb_retarget a) d)"
| "cb_retarget a (dynamic_casting_delegating_control_block T d p) =
     dynamic_casting_delegating_control_block T (map_option (cb_retarget a) d) a"
| "cb_retarget a (const_casting_delegating_control_block d) =
     const_casting_delegating_control_block (map_option (cb_retarget a) d)"

section \<open>The classes of the tests\<close>

text \<open>
  \<open>std::is_base_of\<close> on the classes of \<open>TestCloningPtr.cpp\<close>: a class is a base of
  itself and of the classes derived from it.
\<close>

definition tests_is_base_of :: "cls \<Rightarrow> cls \<Rightarrow> bool" where
  "tests_is_base_of B D =
     (B = D \<or>
      (B, D) \<in> set [(''BaseType'', ''DerivedType''),
                    (''BaseType'', ''AlternativeDerivedType''),
                    (''AlternativeBaseType'', ''AlternativeDerivedType''),
                    (''Base'', ''IntermediateBaseA''),
                    (''Base'', ''IntermediateBaseB''),
                    (''Base'', ''MultiplyDerived''),
                    (''IntermediateBaseA'', ''MultiplyDerived''),
                    (''IntermediateBaseB'', ''MultiplyDerived'')])"

text \<open>Each of these classes declares or inherits a virtual member.\<close>

definition tests_is_polymorphic :: "cls \<Rightarrow> bool" where
  "tests_is_polymorphic C =
     (C \<in> set [''BaseType'', ''DerivedType'', ''AlternativeBaseType'',
                ''AlternativeDerivedType'', ''Base'', ''IntermediateBaseA'',
                ''IntermediateBaseB'', ''MultiplyDerived''])"

section \<open>Comparing two handles\<close>

text \<open>
  The comparison operators of \<open>cloned_ptr.h\<close> are inside a comment (\<open>TODO: Like
  shared_ptr implementations of comparisons\<close>), so the header declares none. What is
  left for \<open>t == u\<close> and \<open>t < u\<close> on two handles is the implicit conversion
  \<open>operator bool\<close> of each operand followed by the built-in comparison, where
  \<open>false < true\<close>.
\<close>

definition operator_eq :: "cloned_ptr \<Rightarrow> cloned_ptr \<Rightarrow> bool" where
  "operator_eq t u = (operator_bool t = operator_bool u)"

definition operator_less :: "cloned_ptr \<Rightarrow> cloned_ptr \<Rightarrow> bool" where
  "operator_less t u = (\<not> operator_bool t \<and> operator_bool u)"

section \<open>Facts about the free store and the control blocks\<close>

lemma key_le_foldr_max:
  "(k, v) \<in> set h \<Longrightarrow> k \<le> foldr max (map fst h) (0::nat)"
  by (induction h) auto

lemma fresh_not_live: "map_of h (fresh h) = None"
proof -
  have "fresh h \<notin> fst ` set h"
  proof
    assume "fresh h \<in> fst ` set h"
    then obtain v where "(fresh h, v) \<in> set h" by auto
    from key_le_foldr_max [OF this] show False by (simp add: fresh_def)
  qed
  then show ?thesis by (simp add: map_of_eq_None_iff)
qed

lemma fresh_nonzero: "fresh h \<noteq> 0"
  by (simp add: fresh_def)

lemma live_not_fresh: "map_of h p = Some ob \<Longrightarrow> fresh h \<noteq> p"
  using fresh_not_live [of h] by auto

lemma delete_obj_null: "delete_obj 0 m = m"
  by (simp add: delete_obj_def)

lemma map_of_filter_other:
  "a \<noteq> q \<Longrightarrow> map_of (filter (\<lambda>kv. fst kv \<noteq> q) xs) a = map_of xs a"
  by (induction xs) auto

lemma delete_obj_other:
  "a \<noteq> q \<Longrightarrow> map_of (objs (delete_obj q m)) a = map_of (objs m) a"
  by (simp add: delete_obj_def map_of_filter_other)

lemma cb_wf_ptr:
  "cb_wf ibo m c \<Longrightarrow> \<exists>p ob. cb_ptr c = Inr p \<and> p \<noteq> 0 \<and> map_of (objs m) p = Some ob"
  by (induction ibo m c rule: cb_wf.induct) auto

lemma cb_retarget_ptr: "cb_coherent c \<Longrightarrow> cb_ptr (cb_retarget a c) = Inr a"
  by (induction c rule: cb_coherent.induct) auto

lemma cb_wf_coherent: "cb_wf ibo m c \<Longrightarrow> cb_coherent c"
  by (induction ibo m c rule: cb_wf.induct) auto

lemma obj_rebuild: "dyn ob = U \<Longrightarrow> \<lparr>dyn = U, val = val ob\<rparr> = ob"
  by auto

lemma cb_clone_wf:
  "cb_wf ibo m c \<Longrightarrow> cb_ptr c = Inr p \<Longrightarrow> map_of (objs m) p = Some ob \<Longrightarrow>
   cb_allocs c \<le> avail m \<Longrightarrow>
   cb_clone ibo c m =
     (Inr (cb_retarget (fresh (objs m)) c),
      m\<lparr>objs := (fresh (objs m), ob) # objs m, avail := avail m - cb_allocs c\<rparr>)"
proof (induction ibo c m arbitrary: p rule: cb_clone.induct)
  case (1 ibo U q m)
  then show ?case
    by (auto simp: new_copy_def new_obj_def alloc_cb_def obj_rebuild)
next
  case (7 ibo T d q m)
  from "7.prems" have wf: "cb_wf ibo m d" and pd: "cb_ptr d = Inr p" and qp: "q = p"
    and dc: "dynamic_cast ibo T p m = Inr p" by auto
  from cb_wf_ptr [OF wf] pd have p0: "p \<noteq> 0" by auto
  from dc p0 "7.prems"(3) have ibo: "ibo T (dyn ob)"
    by (auto simp: dynamic_cast_def split: if_splits)
  have cl: "cb_clone ibo d m =
       (Inr (cb_retarget (fresh (objs m)) d),
        m\<lparr>objs := (fresh (objs m), ob) # objs m, avail := avail m - cb_allocs d\<rparr>)"
    using "7.IH" [OF wf pd "7.prems"(3)] "7.prems"(4) by simp
  have rp: "cb_ptr (cb_retarget (fresh (objs m)) d) = Inr (fresh (objs m))"
    using cb_retarget_ptr [OF cb_wf_coherent [OF wf]] .
  show ?case
    using cl rp ibo "7.prems"(4) fresh_nonzero [of "objs m"]
    by (simp add: alloc_cb_def dynamic_cast_def)
qed (auto simp: alloc_cb_def)

lemma cb_destroy_wf:
  "cb_wf ibo m c \<Longrightarrow> cb_ptr c = Inr q \<Longrightarrow> cb_destroy c m' = delete_obj q m'"
  by (induction ibo m c rule: cb_wf.induct) auto

lemma unique_ptr_reset_wf:
  "handle_wf ibo m t \<Longrightarrow> unique_ptr_reset (cb t) m' = delete_obj (ptr t) m'"
  by (auto simp: handle_wf_def delete_obj_null cb_destroy_wf split: option.splits)

lemma cb_destroy_shrinks:
  "avail (cb_destroy c m) = avail m \<and> set (objs (cb_destroy c m)) \<subseteq> set (objs m)"
  by (induction c m rule: cb_destroy.induct) (auto simp: delete_obj_def)

lemma unique_ptr_reset_shrinks:
  "avail (unique_ptr_reset c m) = avail m \<and>
   set (objs (unique_ptr_reset c m)) \<subseteq> set (objs m) \<and>
   object_count (unique_ptr_reset c m) \<le> object_count m"
proof (cases c)
  case None
  then show ?thesis by simp
next
  case (Some b)
  have "object_count (cb_destroy b m) \<le> object_count m"
    by (induction b m rule: cb_destroy.induct) (auto simp: delete_obj_def object_count_def)
  with Some cb_destroy_shrinks [of b m] show ?thesis by simp
qed

lemma cb_retarget_wf:
  "cb_wf ibo m c \<Longrightarrow> cb_ptr c = Inr p \<Longrightarrow> map_of (objs m) p = Some ob \<Longrightarrow>
   a \<noteq> 0 \<Longrightarrow> map_of (objs m1) a = Some ob \<Longrightarrow> cb_wf ibo m1 (cb_retarget a c)"
proof (induction ibo m c arbitrary: p rule: cb_wf.induct)
  case (7 ibo m T d q)
  then have wf: "cb_wf ibo m d" and pd: "cb_ptr d = Inr p" and qp: "q = p"
    and dc: "dynamic_cast ibo T p m = Inr p" by auto
  from cb_wf_ptr [OF wf] pd have p0: "p \<noteq> 0" by auto
  from dc p0 "7.prems"(3) have ibo: "ibo T (dyn ob)"
    by (auto simp: dynamic_cast_def split: if_splits)
  have "cb_wf ibo m1 (cb_retarget a d)"
    using "7.IH" [OF wf pd "7.prems"(3) "7.prems"(4) "7.prems"(5)] .
  moreover have "cb_ptr (cb_retarget a d) = Inr a"
    using cb_retarget_ptr [OF cb_wf_coherent [OF wf]] .
  moreover have "dynamic_cast ibo T a m1 = Inr a"
    using ibo "7.prems"(4,5) by (simp add: dynamic_cast_def)
  ultimately show ?case by simp
qed auto

lemma cb_release_coherent:
  "cb_coherent c \<Longrightarrow>
     fst (cb_release c) = cb_ptr c \<and> (\<exists>a. cb_ptr c = Inr a) \<and>
     cb_destroy (snd (cb_release c)) m = m"
  by (induction c rule: cb_release.induct)
     (auto simp: delete_obj_null split: prod.splits sum.splits)

lemma alloc_cb_objs: "alloc_cb m = (Inr x, m') \<Longrightarrow> objs m' = objs m"
  by (auto simp: alloc_cb_def split: if_splits)

lemma cb_clone_success:
  "cb_castable ibo c \<Longrightarrow> cb_clone ibo c m = (Inr c', m') \<Longrightarrow>
     \<exists>ob. cb_ptr c' = Inr (fresh (objs m)) \<and>
          objs m' = (fresh (objs m), ob) # objs m \<and> cb_bound c = Some (dyn ob)"
proof (induction ibo c m arbitrary: c' m' rule: cb_clone.induct)
  case (1 ibo U p m)
  then show ?case
    by (auto simp: new_copy_def new_obj_def alloc_cb_def
          split: if_splits option.splits prod.splits sum.splits)
next
  case (3 ibo d m)
  from "3.prems"(2) obtain d' m1 m2 where cl: "cb_clone ibo d m = (Inr d', m1)"
    and al: "alloc_cb m1 = (Inr (), m2)" and res: "c' = delegating_control_block (Some d')" "m' = m2"
    by (auto split: prod.splits sum.splits)
  from "3.IH" [OF _ cl] "3.prems"(1) alloc_cb_objs [OF al] res show ?case by auto
next
  case (5 ibo d m)
  from "5.prems"(2) obtain d' m1 m2 where cl: "cb_clone ibo d m = (Inr d', m1)"
    and al: "alloc_cb m1 = (Inr (), m2)"
    and res: "c' = downcasting_delegating_control_block (Some d')" "m' = m2"
    by (auto split: prod.splits sum.splits)
  from "5.IH" [OF _ cl] "5.prems"(1) alloc_cb_objs [OF al] res show ?case by auto
next
  case (7 ibo T d p m)
  obtain r m1 where cl0: "cb_clone ibo d m = (r, m1)" by (cases "cb_clone ibo d m")
  obtain r2 m2 where al0: "alloc_cb m1 = (r2, m2)" by (cases "alloc_cb m1")
  from "7.prems"(2) cl0 obtain d' where r: "r = Inr d'" by (cases r) simp_all
  from "7.prems"(2) cl0 r al0 have r2: "r2 = Inr ()" by (cases r2) simp_all
  from "7.prems"(2) cl0 r al0 r2 obtain q where pq: "cb_ptr d' = Inr q"
    by (cases "cb_ptr d'") simp_all
  from "7.prems"(2) cl0 r al0 r2 pq obtain q' where dc: "dynamic_cast ibo T q m2 = Inr q'"
    by (cases "dynamic_cast ibo T q m2") simp_all
  from "7.prems"(2) cl0 r al0 r2 pq dc
  have res: "c' = dynamic_casting_delegating_control_block T (Some d') q'" "m' = m2"
    by simp_all
  from cl0 r have cl: "cb_clone ibo d m = (Inr d', m1)" by simp
  from al0 r2 have al: "alloc_cb m1 = (Inr (), m2)" by simp
  from "7.prems"(1) have cd: "cb_castable ibo d" by simp
  from "7.IH" [OF cd cl] obtain ob where q: "cb_ptr d' = Inr (fresh (objs m))"
    and o1: "objs m1 = (fresh (objs m), ob) # objs m" and bd: "cb_bound d = Some (dyn ob)"
    by auto
  from "7.prems"(1) bd have ibo: "ibo T (dyn ob)" by simp
  from q pq have qf: "q = fresh (objs m)" by simp
  from alloc_cb_objs [OF al] o1 have o2: "objs m2 = (fresh (objs m), ob) # objs m" by simp
  from dc qf o2 ibo have "q' = fresh (objs m)"
    by (simp add: dynamic_cast_def fresh_nonzero)
  with res o2 bd show ?case by simp
next
  case (9 ibo d m)
  from "9.prems"(2) obtain d' m1 m2 where cl: "cb_clone ibo d m = (Inr d', m1)"
    and al: "alloc_cb m1 = (Inr (), m2)"
    and res: "c' = const_casting_delegating_control_block (Some d')" "m' = m2"
    by (auto split: prod.splits sum.splits)
  from "9.IH" [OF _ cl] "9.prems"(1) alloc_cb_objs [OF al] res show ?case by auto
qed simp_all

section \<open>Copying\<close>

lemma copy_result:
  assumes src: "handle_wf ibo m p" and c: "cb p = Some c"
    and ob: "map_of (objs m) (ptr p) = Some ob" and av: "cb_allocs c \<le> avail m"
  shows "cloned_ptr_copy ibo p m =
           (Inr \<lparr>ptr = fresh (objs m), cb = Some (cb_retarget (fresh (objs m)) c)\<rparr>,
            m\<lparr>objs := (fresh (objs m), ob) # objs m, avail := avail m - cb_allocs c\<rparr>)"
    and "copy_assign_from ibo t p m =
           (None, \<lparr>ptr = fresh (objs m), cb = Some (cb_retarget (fresh (objs m)) c)\<rparr>,
            unique_ptr_reset (cb t)
              (m\<lparr>objs := (fresh (objs m), ob) # objs m, avail := avail m - cb_allocs c\<rparr>))"
proof -
  from src c have wf: "cb_wf ibo m c" and pc: "cb_ptr c = Inr (ptr p)"
    by (simp_all add: handle_wf_def)
  from cb_wf_ptr [OF wf] pc have p0: "ptr p \<noteq> 0" by auto
  note cl = cb_clone_wf [OF wf pc ob av]
  note rp = cb_retarget_ptr [OF cb_wf_coherent [OF wf], of "fresh (objs m)"]
  show "cloned_ptr_copy ibo p m =
           (Inr \<lparr>ptr = fresh (objs m), cb = Some (cb_retarget (fresh (objs m)) c)\<rparr>,
            m\<lparr>objs := (fresh (objs m), ob) # objs m, avail := avail m - cb_allocs c\<rparr>)"
    using p0 c cl rp by (simp add: cloned_ptr_copy_def operator_bool_def)
  show "copy_assign_from ibo t p m =
           (None, \<lparr>ptr = fresh (objs m), cb = Some (cb_retarget (fresh (objs m)) c)\<rparr>,
            unique_ptr_reset (cb t)
              (m\<lparr>objs := (fresh (objs m), ob) # objs m, avail := avail m - cb_allocs c\<rparr>))"
    using p0 c cl rp by (simp add: copy_assign_from_def operator_bool_def)
qed

lemma copy_nonempty:
  assumes src: "handle_wf ibo m p" and c: "cb p = Some c"
    and ob: "map_of (objs m) (ptr p) = Some ob" and av: "cb_allocs c \<le> avail m"
    and rcv: "handle_wf ibo m t"
  shows "let a = fresh (objs m);
             m1 = m\<lparr>objs := (a, ob) # objs m, avail := avail m - cb_allocs c\<rparr>;
             h = \<lparr>ptr = a, cb = Some (cb_retarget a c)\<rparr>
         in cloned_ptr_copy ibo p m = (Inr h, m1) \<and>
            copy_assign_from ibo t p m = (None, h, delete_obj (ptr t) m1) \<and>
            a \<noteq> 0 \<and> a \<noteq> ptr p \<and> map_of (objs m) a = None \<and>
            map_of (objs m1) a = Some ob \<and>
            map_of (objs (delete_obj (ptr t) m1)) a = Some ob \<and>
            object_count m1 = Suc (object_count m) \<and>
            handle_wf ibo m1 h"
proof -
  define a where "a = fresh (objs m)"
  define m1 where "m1 = m\<lparr>objs := (a, ob) # objs m, avail := avail m - cb_allocs c\<rparr>"
  define h where "h = \<lparr>ptr = a, cb = Some (cb_retarget a c)\<rparr>"
  from src c have wf: "cb_wf ibo m c" and pc: "cb_ptr c = Inr (ptr p)"
    by (simp_all add: handle_wf_def)
  from cb_wf_ptr [OF wf] pc have p0: "ptr p \<noteq> 0" by auto
  have cl: "cb_clone ibo c m = (Inr (cb_retarget a c), m1)"
    using cb_clone_wf [OF wf pc ob av] by (simp add: a_def m1_def)
  have rp: "cb_ptr (cb_retarget a c) = Inr a"
    using cb_retarget_ptr [OF cb_wf_coherent [OF wf]] .
  have a0: "a \<noteq> 0" by (simp add: a_def fresh_nonzero)
  have ap: "a \<noteq> ptr p" using live_not_fresh [OF ob] by (simp add: a_def)
  have an: "map_of (objs m) a = None" by (simp add: a_def fresh_not_live)
  have a1: "map_of (objs m1) a = Some ob" by (simp add: m1_def)
  have copy: "cloned_ptr_copy ibo p m = (Inr h, m1)"
    using p0 c cl rp by (simp add: cloned_ptr_copy_def operator_bool_def h_def)
  have assign: "copy_assign_from ibo t p m = (None, h, delete_obj (ptr t) m1)"
    using p0 c cl rp unique_ptr_reset_wf [OF rcv]
    by (simp add: copy_assign_from_def operator_bool_def h_def)
  have at: "a \<noteq> ptr t"
  proof (cases "cb t")
    case None
    with rcv a0 show ?thesis by (simp add: handle_wf_def)
  next
    case (Some ct)
    with rcv have "cb_wf ibo m ct" "cb_ptr ct = Inr (ptr t)" by (simp_all add: handle_wf_def)
    with cb_wf_ptr [of ibo m ct] obtain o2 where "map_of (objs m) (ptr t) = Some o2" by auto
    from live_not_fresh [OF this] show ?thesis by (simp add: a_def)
  qed
  have a2: "map_of (objs (delete_obj (ptr t) m1)) a = Some ob"
    using delete_obj_other [OF at] a1 by simp
  have cnt: "object_count m1 = Suc (object_count m)"
    by (simp add: object_count_def m1_def)
  have hw: "handle_wf ibo m1 h"
    using cb_retarget_wf [OF wf pc ob a0 a1] rp by (simp add: handle_wf_def h_def)
  show ?thesis
    unfolding Let_def a_def [symmetric] m1_def [symmetric] h_def [symmetric]
    using copy assign a0 ap an a1 a2 cnt hw by simp
qed

lemma copy_empty:
  "ptr p = 0 \<Longrightarrow>
     cloned_ptr_copy ibo p m = (Inr cloned_ptr_null, m) \<and>
     copy_assign_from ibo t p m = (None, cloned_ptr_null, cloned_ptr_destroy t m)"
  by (simp add: cloned_ptr_copy_def copy_assign_from_def operator_bool_def
        cloned_ptr_null_def cloned_ptr_destroy_def)


lemma copy_success:
  assumes "cloned_ptr_copy ibo p m = (Inr h, m')" and "ptr p \<noteq> 0" and "handle_castable ibo p"
  shows "\<exists>c c' ob. cb p = Some c \<and> h = \<lparr>ptr = fresh (objs m), cb = Some c'\<rparr> \<and>
           cb_ptr c' = Inr (fresh (objs m)) \<and>
           objs m' = (fresh (objs m), ob) # objs m \<and> cb_bound c = Some (dyn ob)"
proof -
  from assms(1,2) obtain c c' q where c: "cb p = Some c"
    and cl: "cb_clone ibo c m = (Inr c', m')" and q: "cb_ptr c' = Inr q"
    and h: "h = \<lparr>ptr = q, cb = Some c'\<rparr>"
    by (auto simp: cloned_ptr_copy_def operator_bool_def
          split: if_splits option.splits prod.splits sum.splits)
  from assms(3) c have "cb_castable ibo c" by (simp add: handle_castable_def)
  from cb_clone_success [OF this cl] q c h show ?thesis by auto
qed



section \<open>Conversions and casts\<close>








lemma dynamic_cast_result:
  assumes "fst (dynamic_pointer_cast ibo T p m) = Inr h"
  shows "h = cloned_ptr_null \<or>
    (\<exists>tmp m1 m2 d q1 q2 q3.
       cloned_ptr_copy ibo p m = (Inr tmp, m1) \<and> objs m2 = objs m1 \<and> cb tmp = Some d \<and>
       cb_ptr d = Inr q2 \<and> dynamic_cast ibo T (ptr tmp) m1 = Inr q1 \<and>
       dynamic_cast ibo T q2 m2 = Inr q3 \<and>
       h = \<lparr>ptr = q1, cb = Some (dynamic_casting_delegating_control_block T (Some d) q3)\<rparr>)"
proof -
  obtain r0 where r0: "dynamic_cast ibo T (get p) m = r0" by simp
  show ?thesis
  proof (cases r0)
    case (Inl e)
    with r0 assms show ?thesis by (simp add: dynamic_pointer_cast_def)
  next
    case (Inr q)
    show ?thesis
    proof (cases "q = 0")
      case True
      with r0 Inr assms show ?thesis by (simp add: dynamic_pointer_cast_def)
    next
      case False
      obtain r1 m1 where cp: "cloned_ptr_copy ibo p m = (r1, m1)"
        by (cases "cloned_ptr_copy ibo p m")
      from assms r0 Inr False cp obtain tmp where r1: "r1 = Inr tmp"
        by (cases r1) (simp_all add: dynamic_pointer_cast_def)
      obtain r2 where c1: "dynamic_cast ibo T (ptr tmp) m1 = r2" by simp
      from assms r0 Inr False cp r1 c1 obtain q1 where r2: "r2 = Inr q1"
        by (cases r2) (simp_all add: dynamic_pointer_cast_def)
      obtain r3 m2 where al: "alloc_cb m1 = (r3, m2)" by (cases "alloc_cb m1")
      from assms r0 Inr False cp r1 c1 r2 al have r3: "r3 = Inr ()"
        by (cases r3) (simp_all add: dynamic_pointer_cast_def)
      from al r3 have o: "objs m2 = objs m1" by (rule_tac alloc_cb_objs) simp
      from assms r0 Inr False cp r1 c1 r2 al r3 obtain d where d: "cb tmp = Some d"
        by (cases "cb tmp") (simp_all add: dynamic_pointer_cast_def)
      from assms r0 Inr False cp r1 c1 r2 al r3 d obtain q2 where q2: "cb_ptr d = Inr q2"
        by (cases "cb_ptr d") (simp_all add: dynamic_pointer_cast_def)
      from assms r0 Inr False cp r1 c1 r2 al r3 d q2
      obtain q3 where q3: "dynamic_cast ibo T q2 m2 = Inr q3"
        by (cases "dynamic_cast ibo T q2 m2") (simp_all add: dynamic_pointer_cast_def)
      from assms r0 Inr False cp r1 c1 r2 al r3 d q2 q3
      have "h = \<lparr>ptr = q1, cb = Some (dynamic_casting_delegating_control_block T (Some d) q3)\<rparr>"
        by (simp add: dynamic_pointer_cast_def)
      with cp r1 o d q2 c1 r2 q3 show ?thesis by blast
    qed
  qed
qed

lemma dynamic_cast_castable_result:
  assumes cc: "cast_castable ibo T p" and r: "fst (dynamic_pointer_cast ibo T p m) = Inr h"
  shows "h = cloned_ptr_null \<or>
    (\<exists>c'. h = \<lparr>ptr = fresh (objs m),
                cb = Some (dynamic_casting_delegating_control_block T (Some c')
                             (fresh (objs m)))\<rparr>)"
  using dynamic_cast_result [OF r]
proof
  assume "h = cloned_ptr_null"
  then show ?thesis by simp
next
  assume "\<exists>tmp m1 m2 d q1 q2 q3.
       cloned_ptr_copy ibo p m = (Inr tmp, m1) \<and> objs m2 = objs m1 \<and> cb tmp = Some d \<and>
       cb_ptr d = Inr q2 \<and> dynamic_cast ibo T (ptr tmp) m1 = Inr q1 \<and>
       dynamic_cast ibo T q2 m2 = Inr q3 \<and>
       h = \<lparr>ptr = q1, cb = Some (dynamic_casting_delegating_control_block T (Some d) q3)\<rparr>"
  then obtain tmp m1 m2 d q1 q2 q3 where
    cp: "cloned_ptr_copy ibo p m = (Inr tmp, m1)" and o: "objs m2 = objs m1"
    and d: "cb tmp = Some d" and q2: "cb_ptr d = Inr q2"
    and q1: "dynamic_cast ibo T (ptr tmp) m1 = Inr q1"
    and q3: "dynamic_cast ibo T q2 m2 = Inr q3"
    and h: "h = \<lparr>ptr = q1, cb = Some (dynamic_casting_delegating_control_block T (Some d) q3)\<rparr>"
    by blast
  from cp d have p0: "ptr p \<noteq> 0"
    by (auto simp: cloned_ptr_copy_def operator_bool_def cloned_ptr_null_def
          split: if_splits)
  from cc have hc: "handle_castable ibo p"
    by (simp add: cast_castable_def handle_castable_def split: option.splits)
  from copy_success [OF cp p0 hc] obtain c c' ob where c: "cb p = Some c"
    and tmp: "tmp = \<lparr>ptr = fresh (objs m), cb = Some c'\<rparr>"
    and pc: "cb_ptr c' = Inr (fresh (objs m))"
    and o1: "objs m1 = (fresh (objs m), ob) # objs m" and b: "cb_bound c = Some (dyn ob)"
    by blast
  from cc c b have ibo: "ibo T (dyn ob)" by (simp add: cast_castable_def)
  from q1 tmp o1 ibo have "q1 = fresh (objs m)"
    by (simp add: dynamic_cast_def fresh_nonzero)
  moreover from d tmp q2 pc have "q2 = fresh (objs m)" by simp
  with q3 o o1 ibo have "q3 = fresh (objs m)"
    by (simp add: dynamic_cast_def fresh_nonzero)
  ultimately show ?thesis using h by simp
qed

lemma dynamic_cast_incompatible:
  "ptr p \<noteq> 0 \<Longrightarrow> map_of (objs m) (ptr p) = Some ob \<Longrightarrow> \<not> ibo T (dyn ob) \<Longrightarrow>
     dynamic_pointer_cast ibo T p m = (Inr \<lparr>ptr = 0, cb = None\<rparr>, m)"
  by (simp add: dynamic_pointer_cast_def dynamic_cast_def get_def cloned_ptr_null_def)

lemma dynamic_cast_no_null_cache:
  assumes "cast_castable ibo T p" and "fst (dynamic_pointer_cast ibo T p m) = Inr h"
  shows "cb h = None \<or>
         (\<exists>d. cb h = Some (dynamic_casting_delegating_control_block T (Some d) (ptr h)) \<and>
              ptr h \<noteq> 0)"
  using dynamic_cast_castable_result [OF assms]
  by (auto simp: cloned_ptr_null_def fresh_def)

lemma dynamic_cast_exact:
  assumes src: "handle_wf ibo m p" and c: "cb p = Some c"
    and ob: "map_of (objs m) (ptr p) = Some ob" and ibo: "ibo T (dyn ob)"
    and av: "Suc (cb_allocs c) \<le> avail m"
  shows "dynamic_pointer_cast ibo T p m =
           (Inr \<lparr>ptr = fresh (objs m),
                 cb = Some (dynamic_casting_delegating_control_block T
                              (Some (cb_retarget (fresh (objs m)) c)) (fresh (objs m)))\<rparr>,
            m\<lparr>objs := (fresh (objs m), ob) # objs m,
              avail := avail m - Suc (cb_allocs c)\<rparr>) \<and>
         fresh (objs m) \<noteq> 0"
proof -
  from src c have wf: "cb_wf ibo m c" and pc: "cb_ptr c = Inr (ptr p)"
    by (simp_all add: handle_wf_def)
  from cb_wf_ptr [OF wf] pc have p0: "ptr p \<noteq> 0" by auto
  from av have av': "cb_allocs c \<le> avail m" by simp
  note cp = copy_result(1) [OF src c ob av']
  note rp = cb_retarget_ptr [OF cb_wf_coherent [OF wf], of "fresh (objs m)"]
  from p0 ob ibo have first: "dynamic_cast ibo T (get p) m = Inr (ptr p)"
    by (simp add: dynamic_cast_def get_def)
  show ?thesis
    using p0 first cp rp ibo av fresh_nonzero [of "objs m"]
    by (simp add: dynamic_pointer_cast_def dynamic_cast_def alloc_cb_def)
qed

section \<open>The claims\<close>

subsection \<open>C1: copying\<close>

text \<open>
  C1, as stated, fails on a handle that was built over a pointer whose static type is a
  base of the object's class: \<open>clone\<close> runs \<open>new U(*p_)\<close> with the \<open>U\<close> of the
  constructor call, so the copy of an \<open>IntermediateBaseA\<close> adopted through a
  \<open>Base*\<close> is a \<open>Base\<close>.
\<close>

theorem copy_slices_to_bound_type:
  "cloned_ptr_copy tests_is_base_of
     \<lparr>ptr = 1, cb = Some (control_block_impl ''Base'' 1)\<rparr>
     \<lparr>objs = [(1, \<lparr>dyn = ''IntermediateBaseA'', val = 42\<rparr>)], avail = 2\<rparr>
   = (Inr \<lparr>ptr = 2, cb = Some (control_block_impl ''Base'' 2)\<rparr>,
      \<lparr>objs = [(2, \<lparr>dyn = ''Base'', val = 42\<rparr>), (1, \<lparr>dyn = ''IntermediateBaseA'', val = 42\<rparr>)],
       avail = 0\<rparr>) \<and>
   map_option dyn
     (map_of [(2, \<lparr>dyn = ''Base'', val = 42\<rparr>), (1, \<lparr>dyn = ''IntermediateBaseA'', val = 42\<rparr>)] 2)
     \<noteq> map_option dyn
         (map_of [(2, \<lparr>dyn = ''Base'', val = 42\<rparr>), (1, \<lparr>dyn = ''IntermediateBaseA'', val = 42\<rparr>)]
            (1::nat))"
  by (simp add: cloned_ptr_copy_def operator_bool_def new_copy_def new_obj_def alloc_cb_def
        fresh_def)

text \<open>
  C1, amended. Copying an empty handle, by construction or by assignment, gives an empty
  handle. Copying a handle \<open>p\<close> that is exactly bound (the class its block was built
  with is the dynamic type of its object \<open>ob\<close>), with enough allocations left, returns
  a handle over a new address \<open>a\<close>: \<open>a\<close> is not null, is not the address \<open>p\<close>
  observes and was not live; the store gains the one object \<open>(a, ob)\<close>, of the same
  dynamic type and value as the original; the block of the copy is the block of \<open>p\<close>
  rebuilt over \<open>a\<close>, with the class it was first built with. Copy assignment does the
  same and then deletes the object the receiver owned, which leaves the copy live.
\<close>

theorem copy_duplicates_exactly_bound_object:
  "(ptr p = 0 \<longrightarrow>
      cloned_ptr_copy ibo p m = (Inr cloned_ptr_null, m) \<and>
      copy_assign_from ibo t p m = (None, cloned_ptr_null, cloned_ptr_destroy t m)) \<and>
   (handle_wf ibo m p \<and> cb p = Some c \<and> map_of (objs m) (ptr p) = Some ob \<and>
    cb_allocs c \<le> avail m \<and> handle_wf ibo m t \<longrightarrow>
      (let a = fresh (objs m);
           m1 = m\<lparr>objs := (a, ob) # objs m, avail := avail m - cb_allocs c\<rparr>;
           h = \<lparr>ptr = a, cb = Some (cb_retarget a c)\<rparr>
       in cloned_ptr_copy ibo p m = (Inr h, m1) \<and>
          copy_assign_from ibo t p m = (None, h, delete_obj (ptr t) m1) \<and>
          a \<noteq> 0 \<and> a \<noteq> ptr p \<and> map_of (objs m) a = None \<and>
          map_of (objs m1) a = Some ob \<and>
          map_of (objs (delete_obj (ptr t) m1)) a = Some ob \<and>
          object_count m1 = Suc (object_count m) \<and>
          handle_wf ibo m1 h))"
  (is "?empty \<and> ?owning")
proof
  show ?empty using copy_empty [of p ibo m t] by blast
  show ?owning using copy_nonempty [of ibo m p c ob t] by blast
qed

text \<open>
  C1, witness: an empty handle, and the copy of a \<open>DerivedType\<close> of value 7 next to a
  receiver that owns another object.
\<close>

theorem copy_duplicates_exactly_bound_object_witness:
  "cloned_ptr_copy tests_is_base_of cloned_ptr_null \<lparr>objs = [], avail = 0\<rparr>
     = (Inr cloned_ptr_null, \<lparr>objs = [], avail = 0\<rparr>) \<and>
   cloned_ptr_copy tests_is_base_of
     \<lparr>ptr = 1, cb = Some (control_block_impl ''DerivedType'' 1)\<rparr>
     \<lparr>objs = [(2, \<lparr>dyn = ''DerivedType'', val = 87\<rparr>), (1, \<lparr>dyn = ''DerivedType'', val = 7\<rparr>)],
      avail = 2\<rparr>
     = (Inr \<lparr>ptr = 3, cb = Some (control_block_impl ''DerivedType'' 3)\<rparr>,
        \<lparr>objs = [(3, \<lparr>dyn = ''DerivedType'', val = 7\<rparr>),
                 (2, \<lparr>dyn = ''DerivedType'', val = 87\<rparr>),
                 (1, \<lparr>dyn = ''DerivedType'', val = 7\<rparr>)],
         avail = 0\<rparr>) \<and>
   copy_assign_from tests_is_base_of
     \<lparr>ptr = 2, cb = Some (control_block_impl ''DerivedType'' 2)\<rparr>
     \<lparr>ptr = 1, cb = Some (control_block_impl ''DerivedType'' 1)\<rparr>
     \<lparr>objs = [(2, \<lparr>dyn = ''DerivedType'', val = 87\<rparr>), (1, \<lparr>dyn = ''DerivedType'', val = 7\<rparr>)],
      avail = 2\<rparr>
     = (None, \<lparr>ptr = 3, cb = Some (control_block_impl ''DerivedType'' 3)\<rparr>,
        \<lparr>objs = [(3, \<lparr>dyn = ''DerivedType'', val = 7\<rparr>),
                 (1, \<lparr>dyn = ''DerivedType'', val = 7\<rparr>)],
         avail = 0\<rparr>)"
  using copy_duplicates_exactly_bound_object
          [where p = cloned_ptr_null and ibo = tests_is_base_of
             and m = "\<lparr>objs = [], avail = 0\<rparr>"]
        copy_duplicates_exactly_bound_object
          [where p = "\<lparr>ptr = 1, cb = Some (control_block_impl ''DerivedType'' 1)\<rparr>"
             and t = "\<lparr>ptr = 2, cb = Some (control_block_impl ''DerivedType'' 2)\<rparr>"
             and ibo = tests_is_base_of
             and c = "control_block_impl ''DerivedType'' 1"
             and ob = "\<lparr>dyn = ''DerivedType'', val = 7\<rparr>"
             and m = "\<lparr>objs = [(2, \<lparr>dyn = ''DerivedType'', val = 87\<rparr>),
                               (1, \<lparr>dyn = ''DerivedType'', val = 7\<rparr>)], avail = 2\<rparr>"]
  by (simp add: handle_wf_def cloned_ptr_null_def fresh_def Let_def delete_obj_def)

subsection \<open>C2: the observer and the control block\<close>







































subsection \<open>C3: release\<close>

text \<open>
  C3. \<open>release()\<close> on an empty handle returns null and leaves the handle as it was.
  On a handle that observes the pointer of its coherent block it returns that pointer and
  leaves the handle empty: \<open>get()\<close> is null and \<open>operator bool\<close> is false. It takes
  no part of the free store, and destroying the handle afterwards leaves the store as it
  is: the released object stays live, with the caller.
\<close>

theorem release_transfers_ownership:
  "(ptr t = 0 \<longrightarrow> release t = (Inr 0, t)) \<and>
   (ptr t \<noteq> 0 \<and> cb t = Some c \<and> cb_coherent c \<and> cb_ptr c = Inr (ptr t) \<longrightarrow>
      fst (release t) = Inr (ptr t) \<and>
      get (snd (release t)) = 0 \<and> \<not> operator_bool (snd (release t)) \<and>
      cloned_ptr_destroy (snd (release t)) m = m)"
proof (intro conjI impI)
  show "release t = (Inr 0, t)" if "ptr t = 0"
    using that by (simp add: release_def)
next
  assume h: "ptr t \<noteq> 0 \<and> cb t = Some c \<and> cb_coherent c \<and> cb_ptr c = Inr (ptr t)"
  then have rel: "release t = (fst (cb_release c), \<lparr>ptr = 0, cb = Some (snd (cb_release c))\<rparr>)"
    by (simp add: release_def split: prod.splits)
  from h cb_release_coherent [of c m]
  have c: "fst (cb_release c) = Inr (ptr t)" "cb_destroy (snd (cb_release c)) m = m"
    by simp_all
  show "fst (release t) = Inr (ptr t)" using rel c by simp
  show "get (snd (release t)) = 0" using rel by (simp add: get_def)
  show "\<not> operator_bool (snd (release t))" using rel by (simp add: operator_bool_def)
  show "cloned_ptr_destroy (snd (release t)) m = m"
    using rel c by (simp add: cloned_ptr_destroy_def)
qed

text \<open>
  C3, witness: the empty handle, and a handle converted from a handle over a
  \<open>DerivedType\<close>.
\<close>

theorem release_transfers_ownership_witness:
  "release \<lparr>ptr = 0, cb = None\<rparr> = (Inr 0, \<lparr>ptr = 0, cb = None\<rparr>) \<and>
   fst (release \<lparr>ptr = 1, cb = Some (delegating_control_block
          (Some (control_block_impl ''DerivedType'' 1)))\<rparr>) = Inr 1 \<and>
   cloned_ptr_destroy (snd (release \<lparr>ptr = 1, cb = Some (delegating_control_block
          (Some (control_block_impl ''DerivedType'' 1)))\<rparr>))
      \<lparr>objs = [(1, \<lparr>dyn = ''DerivedType'', val = 7\<rparr>)], avail = 0\<rparr>
    = \<lparr>objs = [(1, \<lparr>dyn = ''DerivedType'', val = 7\<rparr>)], avail = 0\<rparr>"
  using release_transfers_ownership [of "\<lparr>ptr = 0, cb = None\<rparr>"]
        release_transfers_ownership
          [of "\<lparr>ptr = 1, cb = Some (delegating_control_block
                 (Some (control_block_impl ''DerivedType'' 1)))\<rparr>"
              "delegating_control_block (Some (control_block_impl ''DerivedType'' 1))"
              "\<lparr>objs = [(1, \<lparr>dyn = ''DerivedType'', val = 7\<rparr>)], avail = 0\<rparr>"]
  by simp

subsection \<open>C4: moving\<close>

text \<open>
  C4, as stated, fails for a move assignment to a receiver that owns an object: assigning
  to \<open>cb_\<close> destroys the receiver's block and with it the object, so the count of live
  objects goes from two to one, as the test of move assignment between two
  pointer-constructed handles requires.
\<close>

theorem move_assign_destroys_receiver_object:
  "move_assign_from
     \<lparr>ptr = 1, cb = Some (control_block_impl ''DerivedType'' 1)\<rparr>
     \<lparr>ptr = 2, cb = Some (control_block_impl ''DerivedType'' 2)\<rparr>
     \<lparr>objs = [(2, \<lparr>dyn = ''DerivedType'', val = 87\<rparr>), (1, \<lparr>dyn = ''DerivedType'', val = 7\<rparr>)],
      avail = 0\<rparr>
   = (\<lparr>ptr = 2, cb = Some (control_block_impl ''DerivedType'' 2)\<rparr>,
      \<lparr>ptr = 0, cb = None\<rparr>,
      \<lparr>objs = [(2, \<lparr>dyn = ''DerivedType'', val = 87\<rparr>)], avail = 0\<rparr>) \<and>
   object_count \<lparr>objs = [(2, \<lparr>dyn = ''DerivedType'', val = 87\<rparr>),
                         (1, \<lparr>dyn = ''DerivedType'', val = 7\<rparr>)], avail = 0\<rparr> = 2 \<and>
   object_count \<lparr>objs = [(2, \<lparr>dyn = ''DerivedType'', val = 87\<rparr>)], avail = 0\<rparr> = 1"
  by (simp add: move_assign_from_def delete_obj_def object_count_def)

text \<open>
  C4, amended. Move construction and move assignment from another handle give the
  destination the observer and the very control block of the source and leave the source
  with a null observer, boolean-false. Nothing is allocated or cloned: move construction
  does not touch the free store, and move assignment only destroys what the receiver
  owned, so no object is new, the count of live objects does not grow and it is unchanged
  when the receiver was empty.
\<close>

theorem move_steals_without_cloning:
  "get (fst (cloned_ptr_move p)) = get p \<and> cb (fst (cloned_ptr_move p)) = cb p \<and>
   get (snd (cloned_ptr_move p)) = 0 \<and> \<not> operator_bool (snd (cloned_ptr_move p)) \<and>
   (this \<noteq> src \<longrightarrow>
      get (var (operator_assign_move this src w) this) = get (var w src) \<and>
      cb (var (operator_assign_move this src w) this) = cb (var w src) \<and>
      get (var (operator_assign_move this src w) src) = 0 \<and>
      \<not> operator_bool (var (operator_assign_move this src w) src) \<and>
      store (operator_assign_move this src w) = cloned_ptr_destroy (var w this) (store w) \<and>
      avail (store (operator_assign_move this src w)) = avail (store w) \<and>
      set (objs (store (operator_assign_move this src w))) \<subseteq> set (objs (store w)) \<and>
      object_count (store (operator_assign_move this src w)) \<le> object_count (store w) \<and>
      (cb (var w this) = None \<longrightarrow> store (operator_assign_move this src w) = store w))"
  using unique_ptr_reset_shrinks [of "cb (var w this)" "store w"]
  by (simp add: cloned_ptr_move_def operator_assign_move_def move_assign_from_def get_def
        operator_bool_def cloned_ptr_destroy_def)

text \<open>
  C4, witness: an owning handle move-assigned to an empty one.
\<close>

theorem move_steals_without_cloning_witness:
  "get (var (operator_assign_move 0 1
       \<lparr>var = (\<lambda>i. if i = 0 then cloned_ptr_null
                   else \<lparr>ptr = 1, cb = Some (control_block_impl ''DerivedType'' 1)\<rparr>),
        store = \<lparr>objs = [(1, \<lparr>dyn = ''DerivedType'', val = 7\<rparr>)], avail = 0\<rparr>\<rparr>) 0) = 1 \<and>
   get (var (operator_assign_move 0 1
       \<lparr>var = (\<lambda>i. if i = 0 then cloned_ptr_null
                   else \<lparr>ptr = 1, cb = Some (control_block_impl ''DerivedType'' 1)\<rparr>),
        store = \<lparr>objs = [(1, \<lparr>dyn = ''DerivedType'', val = 7\<rparr>)], avail = 0\<rparr>\<rparr>) 1) = 0 \<and>
   store (operator_assign_move 0 1
       \<lparr>var = (\<lambda>i. if i = 0 then cloned_ptr_null
                   else \<lparr>ptr = 1, cb = Some (control_block_impl ''DerivedType'' 1)\<rparr>),
        store = \<lparr>objs = [(1, \<lparr>dyn = ''DerivedType'', val = 7\<rparr>)], avail = 0\<rparr>\<rparr>)
     = \<lparr>objs = [(1, \<lparr>dyn = ''DerivedType'', val = 7\<rparr>)], avail = 0\<rparr>"
  using move_steals_without_cloning
    [where this = 0 and src = 1
       and p = "\<lparr>ptr = 1, cb = Some (control_block_impl ''DerivedType'' 1)\<rparr>"
       and w = "\<lparr>var = (\<lambda>i. if i = 0 then cloned_ptr_null
                   else \<lparr>ptr = 1, cb = Some (control_block_impl ''DerivedType'' 1)\<rparr>),
        store = \<lparr>objs = [(1, \<lparr>dyn = ''DerivedType'', val = 7\<rparr>)], avail = 0\<rparr>\<rparr>"]
  by (simp add: get_def cloned_ptr_null_def operator_assign_move_def move_assign_from_def)

subsection \<open>C5: comparisons\<close>

text \<open>
  C5 fails on the code: with the operators commented out, two handles over distinct
  objects compare equal and neither is less than the other, whatever their addresses
  are.
\<close>

theorem comparison_through_bool:
  "operator_eq \<lparr>ptr = 1, cb = Some (control_block_impl ''DerivedType'' 1)\<rparr>
               \<lparr>ptr = 2, cb = Some (control_block_impl ''DerivedType'' 2)\<rparr> \<and>
   get \<lparr>ptr = 1, cb = Some (control_block_impl ''DerivedType'' 1)\<rparr>
     \<noteq> get \<lparr>ptr = 2, cb = Some (control_block_impl ''DerivedType'' 2)\<rparr> \<and>
   \<not> operator_less \<lparr>ptr = 1, cb = Some (control_block_impl ''DerivedType'' 1)\<rparr>
                    \<lparr>ptr = 2, cb = Some (control_block_impl ''DerivedType'' 2)\<rparr> \<and>
   get \<lparr>ptr = 1, cb = Some (control_block_impl ''DerivedType'' 1)\<rparr>
     < get \<lparr>ptr = 2, cb = Some (control_block_impl ''DerivedType'' 2)\<rparr>"
  by (simp add: operator_eq_def operator_less_def operator_bool_def get_def)

subsection \<open>C6: a pointer whose static type is not the dynamic type\<close>

text \<open>
  C6, as stated, fails: \<open>cloned_ptr(U*)\<close> has no test of the dynamic type, and
  \<open>polymorphic_value(U*, C, D)\<close> tests it only when both the copier and the deleter
  are the default ones. Each adopts a \<open>Base*\<close> to an \<open>IntermediateBaseA\<close>.
\<close>

theorem mismatched_pointer_is_adopted:
  "cloned_ptr_raw ''Base'' 1
     \<lparr>objs = [(1, \<lparr>dyn = ''IntermediateBaseA'', val = 42\<rparr>)], avail = 1\<rparr>
   = (Inr \<lparr>ptr = 1, cb = Some (control_block_impl ''Base'' 1)\<rparr>,
      \<lparr>objs = [(1, \<lparr>dyn = ''IntermediateBaseA'', val = 42\<rparr>)], avail = 0\<rparr>) \<and>
   polymorphic_value_raw tests_is_polymorphic False ''Base'' 1 custom_copier
     (default_delete ''Base'')
     \<lparr>objs = [(1, \<lparr>dyn = ''IntermediateBaseA'', val = 42\<rparr>)], avail = 1\<rparr>
   = (Inr \<lparr>pv_ptr = 1,
           pv_cb = Some (pointer_control_block ''Base'' custom_copier (default_delete ''Base'') 1)\<rparr>,
      \<lparr>objs = [(1, \<lparr>dyn = ''IntermediateBaseA'', val = 42\<rparr>)], avail = 0\<rparr>)"
  by (simp add: cloned_ptr_raw_def alloc_cb_def polymorphic_value_raw_def
        pointer_control_block_adopt_def)

text \<open>
  C6, amended. When type identity is available and \<open>U\<close> is a polymorphic class,
  constructing a \<open>polymorphic_value\<close> from a non-null \<open>U*\<close> to a live object whose
  dynamic type is not \<open>U\<close> throws \<open>bad_polymorphic_value_construction\<close>, with the
  default copier and deleter for \<open>U\<close> and in the allocator constructor: no handle is
  returned and the free store is as before. When the control block can be allocated, the
  constructor completes and adopts the pointer, whatever the object's dynamic type,
  \<^item> in \<open>polymorphic_value(U*, C, D)\<close> when the copier or the deleter is not the
    default one, or \<open>U\<close> is not polymorphic, or type identity is not available;
  \<^item> in the allocator constructor when \<open>U\<close> is not polymorphic or type identity is not
    available;
  \<^item> in \<open>cloned_ptr(U*)\<close> always.
\<close>

theorem mismatch_throws_only_when_checked:
  "(\<not> no_rtti \<and> is_polymorphic U \<and> u \<noteq> 0 \<and> map_of (objs m) u = Some ob \<and> dyn ob \<noteq> U \<longrightarrow>
      polymorphic_value_raw is_polymorphic no_rtti U u (default_copy U) (default_delete U) m
        = (Inl bad_polymorphic_value_construction, m) \<and>
      polymorphic_value_allocator_raw is_polymorphic no_rtti U u m
        = (Inl bad_polymorphic_value_construction, m)) \<and>
   (u \<noteq> 0 \<and> 0 < avail m \<and>
    (no_rtti \<or> \<not> is_polymorphic U \<or> \<not> is_default_copy C U \<or> \<not> is_default_delete D U) \<longrightarrow>
      polymorphic_value_raw is_polymorphic no_rtti U u C D m
        = (Inr \<lparr>pv_ptr = u, pv_cb = Some (pointer_control_block U C D u)\<rparr>,
           m\<lparr>avail := avail m - 1\<rparr>)) \<and>
   (u \<noteq> 0 \<and> 0 < avail m \<and> (no_rtti \<or> \<not> is_polymorphic U) \<longrightarrow>
      polymorphic_value_allocator_raw is_polymorphic no_rtti U u m
        = (Inr \<lparr>pv_ptr = u, pv_cb = Some (allocated_pointer_control_block U u)\<rparr>,
           m\<lparr>avail := avail m - 1\<rparr>)) \<and>
   (u \<noteq> 0 \<and> 0 < avail m \<longrightarrow>
      cloned_ptr_raw U u m
        = (Inr \<lparr>ptr = u, cb = Some (control_block_impl U u)\<rparr>, m\<lparr>avail := avail m - 1\<rparr>))"
  (is "?throws \<and> ?adopts \<and> ?alloc_adopts \<and> ?cloned_adopts")
proof (intro conjI)
  show ?throws
    by (simp add: polymorphic_value_raw_def polymorphic_value_allocator_raw_def
          typeid_deref_def)
  show ?adopts
    by (auto simp: polymorphic_value_raw_def typeid_deref_def
          pointer_control_block_adopt_def alloc_cb_def)
  show ?alloc_adopts
    by (auto simp: polymorphic_value_allocator_raw_def typeid_deref_def
          allocated_pointer_control_block_adopt_def alloc_cb_def)
  show ?cloned_adopts
    by (simp add: cloned_ptr_raw_def alloc_cb_def)
qed

text \<open>
  C6, witness: a \<open>Base*\<close> to an \<open>IntermediateBaseA\<close>, with the defaults, with a
  copier of the caller's, and without type identity.
\<close>

theorem mismatch_throws_only_when_checked_witness:
  "polymorphic_value_raw tests_is_polymorphic False ''Base'' 1
     (default_copy ''Base'') (default_delete ''Base'')
     \<lparr>objs = [(1, \<lparr>dyn = ''IntermediateBaseA'', val = 42\<rparr>)], avail = 1\<rparr>
   = (Inl bad_polymorphic_value_construction,
      \<lparr>objs = [(1, \<lparr>dyn = ''IntermediateBaseA'', val = 42\<rparr>)], avail = 1\<rparr>) \<and>
   polymorphic_value_allocator_raw tests_is_polymorphic False ''Base'' 1
     \<lparr>objs = [(1, \<lparr>dyn = ''IntermediateBaseA'', val = 42\<rparr>)], avail = 1\<rparr>
   = (Inl bad_polymorphic_value_construction,
      \<lparr>objs = [(1, \<lparr>dyn = ''IntermediateBaseA'', val = 42\<rparr>)], avail = 1\<rparr>) \<and>
   polymorphic_value_raw tests_is_polymorphic False ''Base'' 1
     custom_copier (default_delete ''Base'')
     \<lparr>objs = [(1, \<lparr>dyn = ''IntermediateBaseA'', val = 42\<rparr>)], avail = 1\<rparr>
   = (Inr \<lparr>pv_ptr = 1,
           pv_cb = Some (pointer_control_block ''Base'' custom_copier (default_delete ''Base'') 1)\<rparr>,
      \<lparr>objs = [(1, \<lparr>dyn = ''IntermediateBaseA'', val = 42\<rparr>)], avail = 0\<rparr>) \<and>
   polymorphic_value_allocator_raw tests_is_polymorphic True ''Base'' 1
     \<lparr>objs = [(1, \<lparr>dyn = ''IntermediateBaseA'', val = 42\<rparr>)], avail = 1\<rparr>
   = (Inr \<lparr>pv_ptr = 1, pv_cb = Some (allocated_pointer_control_block ''Base'' 1)\<rparr>,
      \<lparr>objs = [(1, \<lparr>dyn = ''IntermediateBaseA'', val = 42\<rparr>)], avail = 0\<rparr>) \<and>
   cloned_ptr_raw ''Base'' 1
     \<lparr>objs = [(1, \<lparr>dyn = ''IntermediateBaseA'', val = 42\<rparr>)], avail = 1\<rparr>
   = (Inr \<lparr>ptr = 1, cb = Some (control_block_impl ''Base'' 1)\<rparr>,
      \<lparr>objs = [(1, \<lparr>dyn = ''IntermediateBaseA'', val = 42\<rparr>)], avail = 0\<rparr>)"
  using mismatch_throws_only_when_checked
          [where no_rtti = False and is_polymorphic = tests_is_polymorphic
             and U = "''Base''" and u = 1
             and m = "\<lparr>objs = [(1, \<lparr>dyn = ''IntermediateBaseA'', val = 42\<rparr>)], avail = 1\<rparr>"
             and ob = "\<lparr>dyn = ''IntermediateBaseA'', val = 42\<rparr>"
             and C = custom_copier and D = "default_delete ''Base''"]
        mismatch_throws_only_when_checked
          [where no_rtti = True and is_polymorphic = tests_is_polymorphic
             and U = "''Base''" and u = 1
             and m = "\<lparr>objs = [(1, \<lparr>dyn = ''IntermediateBaseA'', val = 42\<rparr>)], avail = 1\<rparr>"
             and ob = "\<lparr>dyn = ''IntermediateBaseA'', val = 42\<rparr>"
             and C = custom_copier and D = "default_delete ''Base''"]
  by (simp add: tests_is_polymorphic_def)

subsection \<open>C7: a checked downcast that fails\<close>

text \<open>
  C7, as stated, fails in its last clause. \<open>dynamic_pointer_cast\<close> tests the cast on
  the source's object, then copies, and the adapter's constructor caches the cast of the
  copy untested. For an \<open>IntermediateBaseA\<close> adopted through a \<open>Base*\<close> the cast to
  \<open>IntermediateBaseA\<close> passes the test, the copy is a \<open>Base\<close>, and the result has a
  null observer over an adapter that caches null, with one more live object.
\<close>

theorem dynamic_pointer_cast_sliced_null_cache:
  "dynamic_pointer_cast tests_is_base_of ''IntermediateBaseA''
     \<lparr>ptr = 1, cb = Some (control_block_impl ''Base'' 1)\<rparr>
     \<lparr>objs = [(1, \<lparr>dyn = ''IntermediateBaseA'', val = 42\<rparr>)], avail = 3\<rparr>
   = (Inr \<lparr>ptr = 0,
           cb = Some (dynamic_casting_delegating_control_block ''IntermediateBaseA''
                        (Some (control_block_impl ''Base'' 2)) 0)\<rparr>,
      \<lparr>objs = [(2, \<lparr>dyn = ''Base'', val = 42\<rparr>), (1, \<lparr>dyn = ''IntermediateBaseA'', val = 42\<rparr>)],
       avail = 0\<rparr>)"
  by (simp add: dynamic_pointer_cast_def dynamic_cast_def get_def cloned_ptr_copy_def
        operator_bool_def new_copy_def new_obj_def alloc_cb_def fresh_def
        tests_is_base_of_def)

text \<open>
  C7, amended. When the class \<open>T\<close> is neither the dynamic type of the owned object nor
  one of its bases, \<open>dynamic_pointer_cast<T>\<close> returns, without an error, the handle
  with a null observer and no control block, and the free store is the same: no object
  was copied and nothing was allocated. When each dynamic-casting adapter of the source,
  and the cast, targets the class the source's block was built with or a base of it, a
  handle the cast returns has no control block or has the adapter caching its observer,
  which is not null. When moreover that class is the dynamic type of the object, the
  cast is compatible and the allocations succeed, the cast returns the adapter over a
  copy of the object at a new, non-null address.
\<close>

theorem dynamic_pointer_cast_caches_no_null:
  "(ptr p \<noteq> 0 \<and> map_of (objs m) (ptr p) = Some ob \<and> \<not> ibo T (dyn ob) \<longrightarrow>
      dynamic_pointer_cast ibo T p m = (Inr \<lparr>ptr = 0, cb = None\<rparr>, m)) \<and>
   (cast_castable ibo T p \<longrightarrow>
      (\<forall>h. fst (dynamic_pointer_cast ibo T p m) = Inr h \<longrightarrow>
         cb h = None \<or>
         (\<exists>d. cb h = Some (dynamic_casting_delegating_control_block T (Some d) (ptr h)) \<and>
              ptr h \<noteq> 0))) \<and>
   (handle_wf ibo m p \<and> cb p = Some c \<and> map_of (objs m) (ptr p) = Some ob \<and>
    ibo T (dyn ob) \<and> Suc (cb_allocs c) \<le> avail m \<longrightarrow>
      dynamic_pointer_cast ibo T p m =
        (Inr \<lparr>ptr = fresh (objs m),
              cb = Some (dynamic_casting_delegating_control_block T
                           (Some (cb_retarget (fresh (objs m)) c)) (fresh (objs m)))\<rparr>,
         m\<lparr>objs := (fresh (objs m), ob) # objs m,
           avail := avail m - Suc (cb_allocs c)\<rparr>) \<and>
      fresh (objs m) \<noteq> 0)"
  (is "?incompatible \<and> ?castable \<and> ?exact")
proof (intro conjI)
  show ?incompatible using dynamic_cast_incompatible [of p m ob ibo T] by blast
  show ?castable using dynamic_cast_no_null_cache [of ibo T p m] by blast
  show ?exact using dynamic_cast_exact [of ibo m p c ob T] by blast
qed

text \<open>
  C7, witness: the casts of a \<open>DerivedType\<close> to \<open>AlternativeDerivedType\<close> and
  to \<open>DerivedType\<close>, as in the tests.
\<close>

theorem dynamic_pointer_cast_caches_no_null_witness:
  "dynamic_pointer_cast tests_is_base_of ''AlternativeDerivedType''
     \<lparr>ptr = 1, cb = Some (control_block_impl ''DerivedType'' 1)\<rparr>
     \<lparr>objs = [(1, \<lparr>dyn = ''DerivedType'', val = 7\<rparr>)], avail = 5\<rparr>
   = (Inr \<lparr>ptr = 0, cb = None\<rparr>,
      \<lparr>objs = [(1, \<lparr>dyn = ''DerivedType'', val = 7\<rparr>)], avail = 5\<rparr>) \<and>
   dynamic_pointer_cast tests_is_base_of ''DerivedType''
     \<lparr>ptr = 1, cb = Some (control_block_impl ''DerivedType'' 1)\<rparr>
     \<lparr>objs = [(1, \<lparr>dyn = ''DerivedType'', val = 7\<rparr>)], avail = 5\<rparr>
   = (Inr \<lparr>ptr = 2,
           cb = Some (dynamic_casting_delegating_control_block ''DerivedType''
                        (Some (control_block_impl ''DerivedType'' 2)) 2)\<rparr>,
      \<lparr>objs = [(2, \<lparr>dyn = ''DerivedType'', val = 7\<rparr>), (1, \<lparr>dyn = ''DerivedType'', val = 7\<rparr>)],
       avail = 2\<rparr>)"
  using dynamic_pointer_cast_caches_no_null
          [where p = "\<lparr>ptr = 1, cb = Some (control_block_impl ''DerivedType'' 1)\<rparr>"
             and m = "\<lparr>objs = [(1, \<lparr>dyn = ''DerivedType'', val = 7\<rparr>)], avail = 5\<rparr>"
             and ob = "\<lparr>dyn = ''DerivedType'', val = 7\<rparr>"
             and ibo = tests_is_base_of and T = "''AlternativeDerivedType''"
             and c = "control_block_impl ''DerivedType'' 1"]
        dynamic_pointer_cast_caches_no_null
          [where p = "\<lparr>ptr = 1, cb = Some (control_block_impl ''DerivedType'' 1)\<rparr>"
             and m = "\<lparr>objs = [(1, \<lparr>dyn = ''DerivedType'', val = 7\<rparr>)], avail = 5\<rparr>"
             and ob = "\<lparr>dyn = ''DerivedType'', val = 7\<rparr>"
             and ibo = tests_is_base_of and T = "''DerivedType''"
             and c = "control_block_impl ''DerivedType'' 1"]
  by (simp add: tests_is_base_of_def handle_wf_def dynamic_cast_def fresh_def
        cast_castable_def)

subsection \<open>C8: a failed allocation\<close>

text \<open>
  C8 fails on the code. A copy assignment whose \<open>clone\<close> can allocate the copy of the
  object but not the control block throws \<open>std::bad_alloc\<close> and leaves the receiver as
  it was, but the copy, at address 3, stays in the free store and no handle owns it.
\<close>

theorem clone_leaks_when_block_allocation_fails:
  "copy_assign_from ibo
     \<lparr>ptr = 2, cb = Some (control_block_impl ''DerivedType'' 2)\<rparr>
     \<lparr>ptr = 1, cb = Some (control_block_impl ''DerivedType'' 1)\<rparr>
     \<lparr>objs = [(2, \<lparr>dyn = ''DerivedType'', val = 87\<rparr>), (1, \<lparr>dyn = ''DerivedType'', val = 7\<rparr>)],
      avail = 1\<rparr>
   = (Some bad_alloc,
      \<lparr>ptr = 2, cb = Some (control_block_impl ''DerivedType'' 2)\<rparr>,
      \<lparr>objs = [(3, \<lparr>dyn = ''DerivedType'', val = 7\<rparr>),
               (2, \<lparr>dyn = ''DerivedType'', val = 87\<rparr>),
               (1, \<lparr>dyn = ''DerivedType'', val = 7\<rparr>)],
       avail = 0\<rparr>)"
  by (simp add: copy_assign_from_def operator_bool_def new_copy_def new_obj_def alloc_cb_def
        fresh_def)

subsection \<open>C9: self-assignment and self-reset\<close>

text \<open>
  C9. Copy assignment and move assignment of a handle to itself, and \<open>reset\<close> with
  the address the handle observes, through a pointer of the handle's type or of a
  derived one, return with the handles and the free store unchanged.
\<close>

theorem self_assignment_noop:
  "operator_assign_copy ibo this this w = (None, w) \<and>
   operator_assign_move this this w = w \<and>
   reset T U (ptr t) t m = (None, t, m)"
  by (simp add: operator_assign_copy_def operator_assign_move_def reset_def)

subsection \<open>C10: access through an empty handle\<close>

text \<open>
  C10, as stated, fails for \<open>operator->\<close> of \<open>cloned_ptr\<close>, which returns
  \<open>get()\<close> without an assertion: on an empty handle it returns null, which the test
  of the default constructor requires.
\<close>

theorem arrow_on_empty_returns_null:
  "\<not> operator_bool cloned_ptr_null \<and> operator_arrow cloned_ptr_null = Inr 0"
  by (simp add: operator_bool_def operator_arrow_def get_def cloned_ptr_null_def)

text \<open>
  C10, amended. On an empty handle \<open>operator*\<close> of \<open>cloned_ptr\<close> fails its
  assertion, and so do \<open>operator->\<close> and \<open>operator*\<close> of \<open>polymorphic_value\<close>,
  const or not; \<open>operator->\<close> of \<open>cloned_ptr\<close> returns the null observer.
\<close>

theorem dereference_empty_asserts:
  "(ptr t = 0 \<longrightarrow> operator_star t = Inl assertion_failed \<and> operator_arrow t = Inr 0) \<and>
   (pv_ptr h = 0 \<and> pv_cb h = None \<longrightarrow>
      pv_operator_arrow_const h = Inl assertion_failed \<and>
      pv_operator_star_const h = Inl assertion_failed \<and>
      pv_operator_arrow h = Inl assertion_failed \<and>
      pv_operator_star h = Inl assertion_failed)"
  by (simp add: operator_star_def operator_arrow_def get_def pv_operator_arrow_const_def
        pv_operator_star_const_def pv_operator_arrow_def pv_operator_star_def
        pv_operator_bool_def)

text \<open>
  C10, witness: the default-constructed handles.
\<close>

theorem dereference_empty_asserts_witness:
  "operator_star cloned_ptr_null = Inl assertion_failed \<and>
   pv_operator_arrow polymorphic_value_null = Inl assertion_failed \<and>
   pv_operator_star polymorphic_value_null = Inl assertion_failed"
  using dereference_empty_asserts [of cloned_ptr_null polymorphic_value_null]
  by (simp add: cloned_ptr_null_def polymorphic_value_null_def)

end
